theory Spec2Isabelle
  imports Complex_Main "HOL-Library.AList" "HOL-Library.Multiset"
begin

section \<open>Python strings\<close>

text \<open>
  A Python \<open>str\<close> is modelled as a \<open>string\<close> holding the UTF-8 bytes of the text.
  Substring tests, \<open>split\<close> and \<open>replace\<close> on the bytes agree with the same operations
  on code points, because UTF-8 is self-synchronising. The case mapping of \<open>lower\<close> and
  \<open>title\<close>, the white space of \<open>strip\<close> and the digits of \<open>int\<close> are those of ASCII:
  a character outside ASCII is left as it is, is no white space and is no digit.
\<close>

definition rupee :: string where
  \<comment> \<open>U+20B9, the currency sign of the catalog's prices\<close>
  "rupee = [CHR 0xE2, CHR 0x82, CHR 0xB9]"

definition bullet :: string where
  \<comment> \<open>U+2022, the bullet of the option lists\<close>
  "bullet = [CHR 0xE2, CHR 0x80, CHR 0xA2]"

definition is_upper :: "char \<Rightarrow> bool" where
  "is_upper c = (65 \<le> (of_char c :: nat) \<and> (of_char c :: nat) \<le> 90)"

definition is_lower :: "char \<Rightarrow> bool" where
  "is_lower c = (97 \<le> (of_char c :: nat) \<and> (of_char c :: nat) \<le> 122)"

definition is_digit :: "char \<Rightarrow> bool" where
  "is_digit c = (48 \<le> (of_char c :: nat) \<and> (of_char c :: nat) \<le> 57)"

definition is_space :: "char \<Rightarrow> bool" where
  \<comment> \<open>tab, line feed, vertical tab, form feed, carriage return, the four separators, space\<close>
  "is_space c = ((9 \<le> (of_char c :: nat) \<and> (of_char c :: nat) \<le> 13)
                 \<or> (28 \<le> (of_char c :: nat) \<and> (of_char c :: nat) \<le> 32))"

definition lower_char :: "char \<Rightarrow> char" where
  "lower_char c = (if is_upper c then char_of ((of_char c :: nat) + 32) else c)"

definition upper_char :: "char \<Rightarrow> char" where
  "upper_char c = (if is_lower c then char_of ((of_char c :: nat) - 32) else c)"

definition lower :: "string \<Rightarrow> string" where
  \<comment> \<open>\<open>s.lower()\<close>\<close>
  "lower s = map lower_char s"

fun title_from :: "bool \<Rightarrow> string \<Rightarrow> string" where
  \<comment> \<open>the flag says whether the previous character was a cased letter\<close>
  "title_from prev [] = []"
| "title_from prev (c # cs) =
     (if is_upper c \<or> is_lower c
      then (if prev then lower_char c else upper_char c) # title_from True cs
      else c # title_from False cs)"

definition title_str :: "string \<Rightarrow> string" where
  \<comment> \<open>\<open>s.title()\<close>\<close>
  "title_str s = title_from False s"

fun startswith :: "string \<Rightarrow> string \<Rightarrow> bool" where
  \<comment> \<open>\<open>startswith p s\<close>: \<open>s.startswith(p)\<close>\<close>
  "startswith [] s = True"
| "startswith (a # p) [] = False"
| "startswith (a # p) (b # s) = (a = b \<and> startswith p s)"

fun py_in :: "string \<Rightarrow> string \<Rightarrow> bool" where
  \<comment> \<open>\<open>py_in n s\<close>: the substring test \<open>n in s\<close>\<close>
  "py_in n [] = (n = [])"
| "py_in n (c # cs) = (startswith n (c # cs) \<or> py_in n cs)"

function split_from :: "string \<Rightarrow> string \<Rightarrow> string \<Rightarrow> string list" where
  \<comment> \<open>the scan of \<open>s.split(sep)\<close>; the second argument is the current part, reversed\<close>
  "split_from sep cur [] = [rev cur]"
| "split_from sep cur (c # cs) =
     (if sep \<noteq> [] \<and> startswith sep (c # cs)
      then rev cur # split_from sep [] (drop (length sep - 1) cs)
      else split_from sep (c # cur) cs)"
  by pat_completeness auto
termination
  by (relation "measure (\<lambda>(sep, cur, s). length s)") auto

definition split :: "string \<Rightarrow> string \<Rightarrow> string list" where
  \<comment> \<open>\<open>split s sep\<close>: \<open>s.split(sep)\<close> for a separator that is not empty\<close>
  "split s sep = split_from sep [] s"

function replace :: "string \<Rightarrow> string \<Rightarrow> string \<Rightarrow> string" where
  \<comment> \<open>\<open>replace s old new\<close>: \<open>s.replace(old, new)\<close> for an \<open>old\<close> that is not empty\<close>
  "replace [] old new = []"
| "replace (c # cs) old new =
     (if old \<noteq> [] \<and> startswith old (c # cs)
      then new @ replace (drop (length old - 1) cs) old new
      else c # replace cs old new)"
  by pat_completeness auto
termination
  by (relation "measure (\<lambda>(s, old, new). length s)") auto

definition strip :: "string \<Rightarrow> string" where
  \<comment> \<open>\<open>s.strip()\<close>\<close>
  "strip s = rev (dropWhile is_space (rev (dropWhile is_space s)))"

fun join :: "string \<Rightarrow> string list \<Rightarrow> string" where
  \<comment> \<open>\<open>join sep parts\<close>: \<open>sep.join(parts)\<close>\<close>
  "join sep [] = []"
| "join sep [p] = p"
| "join sep (p # q # ps) = p @ sep @ join sep (q # ps)"

text \<open>
  The exceptions the code can raise. \<open>Exception\<close> stands for the plain
  \<open>Exception\<close> the search raises itself and for a failure of the transport.
\<close>

datatype py_error = IndexError | KeyError | ValueError | TypeError | AttributeError | Exception

definition py_index :: "'a list \<Rightarrow> int \<Rightarrow> py_error + 'a" where
  \<comment> \<open>\<open>xs[i]\<close>: an index below zero counts from the end\<close>
  "py_index xs i =
     (if 0 \<le> i \<and> i < int (length xs) then Inr (xs ! nat i)
      else if i < 0 \<and> - int (length xs) \<le> i then Inr (xs ! nat (int (length xs) + i))
      else Inl IndexError)"

function str_nat :: "nat \<Rightarrow> string" where
  \<comment> \<open>\<open>str(n)\<close> of a number that is not negative\<close>
  "str_nat n =
     (if n < 10 then [char_of (48 + n)] else str_nat (n div 10) @ [char_of (48 + n mod 10)])"
  by pat_completeness auto
termination
  by (relation "measure (\<lambda>n. n)") auto

definition apos :: string where
  "apos = [CHR 0x27]"

definition newline :: string where
  "newline = [CHR 0x0A]"

text \<open>
  \<open>int(s)\<close> on a string: white space around the number is dropped, a sign may come
  first, and the digits may be grouped by single underscores. Anything else raises
  \<open>ValueError\<close>.
\<close>

fun digits_value :: "int \<Rightarrow> bool \<Rightarrow> string \<Rightarrow> int option" where
  \<comment> \<open>the flag says whether the previous character was a digit\<close>
  "digits_value acc prev [] = (if prev then Some acc else None)"
| "digits_value acc prev (c # cs) =
     (if is_digit c then digits_value (acc * 10 + (int (of_char c) - 48)) True cs
      else if c = CHR ''_'' \<and> prev then
        (case cs of [] \<Rightarrow> None
         | d # ds \<Rightarrow> if is_digit d then digits_value acc False cs else None)
      else None)"

definition py_int :: "string \<Rightarrow> py_error + int" where
  "py_int s =
     (case strip s of
        [] \<Rightarrow> Inl ValueError
      | c # cs \<Rightarrow>
          (if c = CHR ''-'' then
             (case digits_value 0 False cs of None \<Rightarrow> Inl ValueError | Some n \<Rightarrow> Inr (- n))
           else if c = CHR ''+'' then
             (case digits_value 0 False cs of None \<Rightarrow> Inl ValueError | Some n \<Rightarrow> Inr n)
           else
             (case digits_value 0 False (c # cs) of None \<Rightarrow> Inl ValueError | Some n \<Rightarrow> Inr n)))"

section \<open>Data model\<close>

text \<open>
  A product is a dictionary whose keys may be absent: a field is \<open>None\<close> when the
  dictionary has no such key (for \<open>rating\<close> and \<open>reviews_count\<close>, which the code
  only reads with \<open>get\<close>, also when the key holds Python's \<open>None\<close>). Scores are
  Python floats; they are modelled as exact rationals, so rounding is not part of
  the model.
\<close>

record product =
  title :: "string option"
  price :: "string option"
  description :: "string option"
  image_url :: "string option"
  rating :: "rat option"
  reviews_count :: "int option"
  source :: "string option"
  url :: "string option"
  relevance_score :: "rat option"
  explanation :: "string option"

text \<open>What \<open>_rank_products\<close> emits: every key is present.\<close>

record formatted_product =
  f_id :: string
  f_title :: string
  f_description :: string
  f_price :: string
  f_currency :: string
  f_image_url :: string
  f_rating :: "rat option"
  f_reviews_count :: "int option"
  f_availability :: string
  f_source :: string
  f_url :: string
  f_relevance_score :: rat
  f_explanation :: string

record filter_spec =
  name :: string
  param :: string
  options :: "string list"

text \<open>
  A session of \<open>user_sessions\<close>. \<open>current_filters\<close> is a dictionary in insertion
  order, \<open>current_filter_index\<close> a Python integer.
\<close>

record session =
  stage :: string
  product_keyword :: "string option"
  current_filters :: "(string \<times> string) list"
  available_filters :: "filter_spec list"
  current_filter_index :: int

type_synonym sessions = "string \<rightharpoonup> session"

text \<open>
  The dictionary a chat turn returns, without its time stamp. \<open>filter_options\<close> and
  \<open>filter_name\<close> are \<open>None\<close> when the dictionary has no such key.
\<close>

record response =
  message :: string
  has_products :: bool
  products :: "product list"
  filter_options :: "string list option"
  filter_name :: "string option"

text \<open>The dictionary a one-shot search returns.\<close>

record search_result =
  sr_products :: "formatted_product list"
  sr_explanation :: string
  sr_search_id :: string

definition new_session :: session where
  "new_session = \<lparr>stage = ''initial'', product_keyword = None, current_filters = [],
     available_filters = [], current_filter_index = 0\<rparr>"

section \<open>The fallback catalog\<close>

definition any_in :: "string list \<Rightarrow> string \<Rightarrow> bool" where
  \<comment> \<open>\<open>any(word in s for word in words)\<close>\<close>
  "any_in words s = list_ex (\<lambda>word. py_in word s) words"

definition get_fallback_products :: "string \<Rightarrow> product list" where
  "get_fallback_products query =
     (let query_lower = lower query in
      if any_in [''smartphone'', ''phone'', ''mobile''] query_lower then
        [\<lparr>title = Some ''Samsung Galaxy A54 5G (Awesome Blue, 128GB)'',
          price = Some (rupee @ ''38,999''),
          description = Some ''6.4-inch Super AMOLED display, 50MP triple camera, 5000mAh battery'',
          image_url = Some ''https://images.samsung.com/is/image/samsung/p6pim/in/2202/gallery/in-galaxy-a54-5g-a546-sm-a546elvcins-534851043'',
          rating = Some (43 / 10), reviews_count = Some 15420,
          source = Some ''Amazon'', url = Some ''https://amazon.in'',
          relevance_score = None, explanation = None\<rparr>,
         \<lparr>title = Some ''Realme 11 Pro+ 5G (Oasis Green, 256GB)'',
          price = Some (rupee @ ''31,999''),
          description = Some ''6.7-inch curved AMOLED, 200MP camera, 100W SuperVOOC charging'',
          image_url = Some ''https://image01.realme.net/general/20230510/1683709141064.jpg'',
          rating = Some (42 / 10), reviews_count = Some 8934,
          source = Some ''Flipkart'', url = Some ''https://flipkart.com'',
          relevance_score = None, explanation = None\<rparr>]
      else if any_in [''laptop'', ''computer''] query_lower then
        [\<lparr>title = Some ''HP Pavilion 15 Intel Core i5 12th Gen Laptop'',
          price = Some (rupee @ ''56,999''),
          description = Some ''15.6-inch FHD, 8GB RAM, 512GB SSD, Windows 11'',
          image_url = Some ''https://ssl-product-images.www8-hp.com/digmedialib/prodimg/lowres/c08140467.png'',
          rating = Some (41 / 10), reviews_count = Some 2341,
          source = Some ''HP Store'', url = Some ''https://hp.com'',
          relevance_score = None, explanation = None\<rparr>]
      else
        [\<lparr>title = Some (''Sample Product for '' @ query),
          price = Some (rupee @ ''15,999''),
          description = Some ''High-quality product matching your search criteria'',
          image_url = Some ''https://via.placeholder.com/300x200?text=Product'',
          rating = Some 4, reviews_count = Some 500,
          source = Some ''Sample Store'', url = Some ''#'',
          relevance_score = None, explanation = None\<rparr>])"

section \<open>Keyword vocabulary and filter catalog\<close>

definition product_keywords :: "string list" where
  "product_keywords =
     [''smartphone'', ''phone'', ''mobile'', ''iphone'', ''android'',
      ''laptop'', ''computer'', ''macbook'', ''chromebook'',
      ''speakers'', ''speaker'', ''bluetooth speaker'',
      ''earphones'', ''headphones'', ''earbuds'', ''airpods'',
      ''tablet'', ''ipad'',
      ''watch'', ''smartwatch'', ''fitness tracker'',
      ''camera'', ''dslr'', ''mirrorless'',
      ''tv'', ''television'', ''smart tv'',
      ''mouse'', ''keyboard'', ''webcam'',
      ''charger'', ''power bank'', ''cable'',
      ''case'', ''cover'', ''screen protector'']"

definition extract_product_keyword :: "string \<Rightarrow> string option" where
  \<comment> \<open>the first keyword of the vocabulary that occurs in the lowered message\<close>
  "extract_product_keyword msg = find (\<lambda>keyword. py_in keyword (lower msg)) product_keywords"

definition get_available_filters :: "string \<Rightarrow> filter_spec list" where
  "get_available_filters keyword =
     (if keyword \<in> set [''smartphone'', ''phone'', ''mobile'', ''iphone'', ''android''] then
        [\<lparr>name = ''Brand'', param = ''brand'',
          options = [''Samsung'', ''Apple'', ''OnePlus'', ''Xiaomi'', ''Realme'', ''Oppo'', ''Vivo'',
                     ''Google'', ''Nothing'']\<rparr>,
         \<lparr>name = ''Price Range'', param = ''price'',
          options = [''Under '' @ rupee @ ''10,000'',
                     rupee @ ''10,000 - '' @ rupee @ ''20,000'',
                     rupee @ ''20,000 - '' @ rupee @ ''40,000'',
                     rupee @ ''40,000 - '' @ rupee @ ''60,000'',
                     ''Above '' @ rupee @ ''60,000'']\<rparr>,
         \<lparr>name = ''Storage'', param = ''storage'',
          options = [''64GB'', ''128GB'', ''256GB'', ''512GB'', ''1TB'']\<rparr>,
         \<lparr>name = ''RAM'', param = ''ram'',
          options = [''4GB'', ''6GB'', ''8GB'', ''12GB'', ''16GB'']\<rparr>]
      else if keyword \<in> set [''laptop'', ''computer'', ''macbook'', ''chromebook''] then
        [\<lparr>name = ''Brand'', param = ''brand'',
          options = [''HP'', ''Dell'', ''Lenovo'', ''Asus'', ''Acer'', ''Apple'', ''MSI'', ''Samsung'']\<rparr>,
         \<lparr>name = ''Price Range'', param = ''price'',
          options = [''Under '' @ rupee @ ''30,000'',
                     rupee @ ''30,000 - '' @ rupee @ ''50,000'',
                     rupee @ ''50,000 - '' @ rupee @ ''80,000'',
                     rupee @ ''80,000 - '' @ rupee @ ''1,20,000'',
                     ''Above '' @ rupee @ ''1,20,000'']\<rparr>,
         \<lparr>name = ''Processor'', param = ''processor'',
          options = [''Intel Core i3'', ''Intel Core i5'', ''Intel Core i7'', ''Intel Core i9'',
                     ''AMD Ryzen 5'', ''AMD Ryzen 7'', ''Apple M1/M2'']\<rparr>,
         \<lparr>name = ''RAM'', param = ''ram'',
          options = [''4GB'', ''8GB'', ''16GB'', ''32GB'']\<rparr>]
      else if keyword \<in> set [''speakers'', ''speaker'', ''bluetooth speaker''] then
        [\<lparr>name = ''Brand'', param = ''brand'',
          options = [''JBL'', ''Sony'', ''Bose'', ''Marshall'', ''Ultimate Ears'', ''Boat'',
                     ''Portronics'']\<rparr>,
         \<lparr>name = ''Price Range'', param = ''price'',
          options = [''Under '' @ rupee @ ''2,000'',
                     rupee @ ''2,000 - '' @ rupee @ ''5,000'',
                     rupee @ ''5,000 - '' @ rupee @ ''10,000'',
                     rupee @ ''10,000 - '' @ rupee @ ''20,000'',
                     ''Above '' @ rupee @ ''20,000'']\<rparr>,
         \<lparr>name = ''Connectivity'', param = ''connectivity'',
          options = [''Bluetooth'', ''Wi-Fi'', ''Wired'', ''Multi-room'']\<rparr>]
      else if keyword \<in> set [''earphones'', ''headphones'', ''earbuds'', ''airpods''] then
        [\<lparr>name = ''Brand'', param = ''brand'',
          options = [''Apple'', ''Sony'', ''Bose'', ''JBL'', ''Sennheiser'', ''Boat'', ''OnePlus'',
                     ''Samsung'']\<rparr>,
         \<lparr>name = ''Price Range'', param = ''price'',
          options = [''Under '' @ rupee @ ''1,500'',
                     rupee @ ''1,500 - '' @ rupee @ ''5,000'',
                     rupee @ ''5,000 - '' @ rupee @ ''10,000'',
                     rupee @ ''10,000 - '' @ rupee @ ''20,000'',
                     ''Above '' @ rupee @ ''20,000'']\<rparr>,
         \<lparr>name = ''Type'', param = ''type'',
          options = [''True Wireless'', ''Wireless'', ''Wired'', ''Over-ear'', ''On-ear'', ''In-ear'']\<rparr>,
         \<lparr>name = ''Features'', param = ''features'',
          options = [''Active Noise Cancellation'', ''Wireless Charging'', ''Water Resistant'',
                     ''Gaming'', ''Sports'']\<rparr>]
      else
        [\<lparr>name = ''Price Range'', param = ''price'',
          options = [''Under '' @ rupee @ ''1,000'',
                     rupee @ ''1,000 - '' @ rupee @ ''5,000'',
                     rupee @ ''5,000 - '' @ rupee @ ''10,000'',
                     rupee @ ''10,000 - '' @ rupee @ ''25,000'',
                     ''Above '' @ rupee @ ''25,000'']\<rparr>,
         \<lparr>name = ''Brand'', param = ''brand'',
          options = [''Popular Brands'', ''Premium Brands'', ''Budget Brands'']\<rparr>])"

section \<open>Canned replies\<close>

definition greeting_reply :: string where
  "greeting_reply = ''Hello! I'' @ [CHR 0x27] @ ''m your AI Shopping Agent. I can help you find products based on your needs. Just tell me what you'' @ [CHR 0x27] @ ''re looking for!''"

definition thanks_reply :: string where
  "thanks_reply = ''You'' @ [CHR 0x27] @ ''re welcome! Is there anything else I can help you find today?''"

definition help_reply :: string where
  "help_reply = ''I can help you find products by understanding your natural language queries. For example, you can say '' @ [CHR 0x27] @ ''I need a smartphone under '' @ rupee @ ''20000 with good camera'' @ [CHR 0x27] @ '' and I'' @ [CHR 0x27] @ ''ll find the best options for you!''"

definition default_reply :: string where
  "default_reply = ''I'' @ [CHR 0x27] @ ''m here to help you find products! Could you tell me what you'' @ [CHR 0x27] @ ''re looking for? I can search for electronics, clothing, accessories, and much more.''"

definition generate_conversational_response :: "string \<Rightarrow> string" where
  "generate_conversational_response msg =
     (let message_lower = lower msg in
      if any_in [''hello'', ''hi'', ''hey'', ''good morning'', ''good afternoon'', ''good evening'']
           message_lower then greeting_reply
      else if any_in [''thank you'', ''thanks'', ''appreciate''] message_lower then thanks_reply
      else if any_in [''help'', ''how'', ''what can you do''] message_lower then help_reply
      else default_reply)"

section \<open>Ports and configuration\<close>

text \<open>
  The API keys are read once, when the service is created; an unset key is the empty
  string. The three external services are functions given to each operation: what a
  service answers to a request is not part of the program.
\<close>

record config =
  phi3_api_key :: string
  serpapi_key :: string
  together_api_key :: string
  openrouter_api_key :: string

text \<open>One entry of \<open>shopping_results\<close>; a field is \<open>None\<close> when the key is absent.\<close>

record listing =
  r_title :: "string option"
  r_price :: "string option"
  r_snippet :: "string option"
  r_thumbnail :: "string option"
  r_rating :: "rat option"
  r_reviews :: "int option"
  r_source :: "string option"
  r_link :: "string option"

record serp_request =
  rq_q :: string
  rq_min_price :: "string option"
  rq_max_price :: "string option"

datatype serp_outcome =
    Serp200 "listing list"  \<comment> \<open>status 200, with \<open>data.get("shopping_results", [])\<close>\<close>
  | Serp429                 \<comment> \<open>rate limit\<close>
  | SerpStatus              \<comment> \<open>any other status\<close>
  | SerpRaise               \<comment> \<open>the request or the decoding of its body raises\<close>

datatype parsed_query =
    ParsedDict "string option"  \<comment> \<open>a dictionary, with its \<open>product_type\<close> if it has one\<close>
  | ParsedOther                 \<comment> \<open>JSON that is no dictionary\<close>

datatype phi3_outcome = Phi200 parsed_query | Phi200BadJson | PhiStatus | PhiRaise

datatype score_reply =
    Score200 "rat option" "string option"
      \<comment> \<open>status 200 and a JSON object, with its \<open>relevance_score\<close> and \<open>explanation\<close>
          if it has them\<close>
  | Score200BadJson
  | ScoreStatus
  | ScoreRaise

record ports =
  phi3_port :: "string \<Rightarrow> phi3_outcome"
  serpapi_port :: "serp_request \<Rightarrow> serp_outcome"
  scoring_session :: bool  \<comment> \<open>whether the HTTP session of the scorer can be opened\<close>
  scoring_port :: "nat \<Rightarrow> string \<Rightarrow> product \<Rightarrow> score_reply"
    \<comment> \<open>the reply to the i-th call, for a query and a product\<close>
  uuid4 :: "nat \<Rightarrow> string"  \<comment> \<open>the i-th identifier drawn during the operation\<close>

section \<open>Query interpreter and retrieval\<close>

definition parse_query_with_phi3 :: "config \<Rightarrow> ports \<Rightarrow> string \<Rightarrow> parsed_query" where
  "parse_query_with_phi3 cfg io query =
     (if phi3_api_key cfg = [] then ParsedDict (Some query)
      else (case phi3_port io query of
              Phi200 parsed \<Rightarrow> parsed
            | Phi200BadJson \<Rightarrow> ParsedDict (Some query)
            | PhiStatus \<Rightarrow> ParsedDict (Some query)
            | PhiRaise \<Rightarrow> ParsedDict (Some query)))"

definition get_or :: "'a option \<Rightarrow> 'a \<Rightarrow> 'a" where
  \<comment> \<open>\<open>d.get(key, default)\<close> on a field\<close>
  "get_or field dflt = (case field of None \<Rightarrow> dflt | Some v \<Rightarrow> v)"

definition listing_product :: "listing \<Rightarrow> product" where
  \<comment> \<open>the dictionary built from one shopping result (its \<open>raw_data\<close> is never read)\<close>
  "listing_product result =
     \<lparr>title = Some (get_or (r_title result) []),
      price = Some (get_or (r_price result) []),
      description = Some (get_or (r_snippet result) []),
      image_url = Some (get_or (r_thumbnail result) []),
      rating = r_rating result,
      reviews_count = r_reviews result,
      source = Some (get_or (r_source result) []),
      url = Some (get_or (r_link result) []),
      relevance_score = None, explanation = None\<rparr>"

definition search_products_with_serpapi ::
  "config \<Rightarrow> ports \<Rightarrow> parsed_query \<Rightarrow> py_error + product list" where
  "search_products_with_serpapi cfg io parsed =
     (if serpapi_key cfg = [] then Inl Exception
      else (case parsed of
              ParsedOther \<Rightarrow> Inl AttributeError
            | ParsedDict product_type \<Rightarrow>
                (case serpapi_port io
                        \<lparr>rq_q = get_or product_type [], rq_min_price = None, rq_max_price = None\<rparr> of
                   Serp200 shopping_results \<Rightarrow> Inr (map listing_product shopping_results)
                 | Serp429 \<Rightarrow> Inr []
                 | SerpStatus \<Rightarrow> Inl Exception
                 | SerpRaise \<Rightarrow> Inl Exception)))"

definition search_with_keyword :: "config \<Rightarrow> ports \<Rightarrow> string \<Rightarrow> py_error + product list" where
  "search_with_keyword cfg io keyword =
     search_products_with_serpapi cfg io (ParsedDict (Some keyword))"

section \<open>Filtered fallback\<close>

definition brand_sentinels :: "string list" where
  "brand_sentinels = [''Popular Brands'', ''Premium Brands'', ''Budget Brands'']"

datatype verdict = Skip | Keep

definition brand_check :: "(string \<times> string) list \<Rightarrow> product \<Rightarrow> py_error + verdict" where
  \<comment> \<open>\<open>Skip\<close> is the \<open>continue\<close> of the loop; \<open>product["title"]\<close> raises on a missing key\<close>
  "brand_check filters product =
     (case map_of filters ''brand'' of
        None \<Rightarrow> Inr Keep
      | Some brand \<Rightarrow>
          if brand \<notin> set brand_sentinels then
            (case title product of
               None \<Rightarrow> Inl KeyError
             | Some t \<Rightarrow> if \<not> py_in (lower brand) (lower t) then Inr Skip else Inr Keep)
          else Inr Keep)"

definition price_check :: "(string \<times> string) list \<Rightarrow> product \<Rightarrow> verdict" where
  \<comment> \<open>every exception inside the \<open>try\<close> ends in \<open>pass\<close>: the product is kept\<close>
  "price_check filters product =
     (case map_of filters ''price'' of
        None \<Rightarrow> Keep
      | Some price_filter \<Rightarrow>
          (let product_price =
                 replace (replace (get_or (price product) (rupee @ ''0'')) rupee []) '','' []
           in case py_int product_price of
                Inl e \<Rightarrow> Keep
              | Inr price_num \<Rightarrow>
                  if py_in (''Under '' @ rupee) price_filter then
                    (case py_index (split price_filter rupee) 1 of
                       Inl e \<Rightarrow> Keep
                     | Inr part \<Rightarrow>
                         (case py_int (replace part '','' []) of
                            Inl e \<Rightarrow> Keep
                          | Inr max_price \<Rightarrow> if price_num \<ge> max_price then Skip else Keep))
                  else if py_in ''-'' price_filter then
                    (let prices = split (replace (replace price_filter rupee []) '','' []) '' - ''
                     in if length prices = 2 then
                          (case py_int (strip (prices ! 0)) of
                             Inl e \<Rightarrow> Keep
                           | Inr min_price \<Rightarrow>
                               (case py_int (strip (prices ! 1)) of
                                  Inl e \<Rightarrow> Keep
                                | Inr max_price \<Rightarrow>
                                    if \<not> (min_price \<le> price_num \<and> price_num \<le> max_price)
                                    then Skip else Keep))
                        else Keep)
                  else Keep))"

definition filter_explanation :: "(string \<times> string) list \<Rightarrow> string" where
  "filter_explanation filters =
     ''Matches your filters - '' @
     join '', '' (map (\<lambda>(key, v). title_str key @ '': '' @ v) filters)"

fun filter_fallback_loop :: "(string \<times> string) list \<Rightarrow> product list \<Rightarrow> py_error + product list" where
  \<comment> \<open>the loop over \<open>base_products\<close>, returning \<open>filtered_products\<close>\<close>
  "filter_fallback_loop filters [] = Inr []"
| "filter_fallback_loop filters (product # rest) =
     (case brand_check filters product of
        Inl e \<Rightarrow> Inl e
      | Inr Skip \<Rightarrow> filter_fallback_loop filters rest
      | Inr Keep \<Rightarrow>
          (case price_check filters product of
             Skip \<Rightarrow> filter_fallback_loop filters rest
           | Keep \<Rightarrow>
               (case filter_fallback_loop filters rest of
                  Inl e \<Rightarrow> Inl e
                | Inr filtered \<Rightarrow>
                    Inr (product\<lparr>explanation := Some (filter_explanation filters)\<rparr> # filtered))))"

definition get_filtered_fallback_products ::
  "string \<Rightarrow> (string \<times> string) list \<Rightarrow> py_error + product list" where
  "get_filtered_fallback_products keyword filters =
     (let base_products = get_fallback_products keyword in
      case filter_fallback_loop filters base_products of
        Inl e \<Rightarrow> Inl e
      | Inr filtered_products \<Rightarrow>
          Inr (if filtered_products \<noteq> [] then filtered_products else base_products))"

section \<open>Filtered search\<close>

definition add_filter ::
  "string \<Rightarrow> string \<Rightarrow> (string \<times> string) list \<Rightarrow> string \<Rightarrow> string" where
  \<comment> \<open>\<open>if key in filters: search_query += f" {filters[key]}suffix"\<close>\<close>
  "add_filter key suffix filters search_query =
     (case map_of filters key of
        None \<Rightarrow> search_query
      | Some v \<Rightarrow> search_query @ '' '' @ v @ suffix)"

definition build_search_query :: "string \<Rightarrow> (string \<times> string) list \<Rightarrow> py_error + string" where
  \<comment> \<open>the query text, built before the \<open>try\<close>: \<open>split(...)[1]\<close> can raise\<close>
  "build_search_query keyword filters =
     (let with_brand =
        (case map_of filters ''brand'' of
           None \<Rightarrow> keyword
         | Some brand \<Rightarrow>
             if brand \<notin> set brand_sentinels then keyword @ '' '' @ brand else keyword);
          with_price =
        (case map_of filters ''price'' of
           None \<Rightarrow> Inr with_brand
         | Some price_filter \<Rightarrow>
             if py_in ''Under'' price_filter then
               (case py_index (split price_filter rupee) 1 of
                  Inl e \<Rightarrow> Inl e
                | Inr part \<Rightarrow> Inr (with_brand @ '' under '' @ replace part '','' []))
             else if py_in ''-'' price_filter then
               Inr (with_brand @ '' '' @ replace price_filter rupee ''Rs '')
             else Inr with_brand)
      in case with_price of
           Inl e \<Rightarrow> Inl e
         | Inr search_query \<Rightarrow>
             Inr (add_filter ''connectivity'' [] filters
                   (add_filter ''features'' [] filters
                     (add_filter ''type'' [] filters
                       (add_filter ''processor'' [] filters
                         (add_filter ''ram'' '' RAM'' filters
                           (add_filter ''storage'' [] filters search_query)))))))"

definition price_params ::
  "(string \<times> string) list \<Rightarrow> py_error + (string option \<times> string option)" where
  \<comment> \<open>\<open>min_price\<close> and \<open>max_price\<close> of the request, built inside the \<open>try\<close>\<close>
  "price_params filters =
     (case map_of filters ''price'' of
        None \<Rightarrow> Inr (None, None)
      | Some price_filter \<Rightarrow>
          if py_in (''Under '' @ rupee) price_filter then
            (case py_index (split price_filter rupee) 1 of
               Inl e \<Rightarrow> Inl e
             | Inr part \<Rightarrow> Inr (None, Some (replace part '','' [])))
          else if py_in ''-'' price_filter \<and> py_in rupee price_filter then
            (let prices = split (replace (replace price_filter rupee []) '','' []) '' - ''
             in if length prices = 2
                then Inr (Some (strip (prices ! 0)), Some (strip (prices ! 1)))
                else Inr (None, None))
          else Inr (None, None))"

definition search_with_filters ::
  "config \<Rightarrow> ports \<Rightarrow> string \<Rightarrow> (string \<times> string) list \<Rightarrow> py_error + product list" where
  \<comment> \<open>an exception inside the \<open>try\<close> ends in the filtered fallback, which is also what
      the \<open>try\<close> returns on a missing key and on a status other than 200\<close>
  "search_with_filters cfg io keyword filters =
     (case build_search_query keyword filters of
        Inl e \<Rightarrow> Inl e
      | Inr search_query \<Rightarrow>
          if serpapi_key cfg = [] then get_filtered_fallback_products keyword filters
          else
            (case price_params filters of
               Inl e \<Rightarrow> get_filtered_fallback_products keyword filters
             | Inr (lo, hi) \<Rightarrow>
                 (case serpapi_port io
                         \<lparr>rq_q = search_query, rq_min_price = lo, rq_max_price = hi\<rparr> of
                    Serp200 shopping_results \<Rightarrow> Inr (map listing_product shopping_results)
                  | Serp429 \<Rightarrow> get_filtered_fallback_products keyword filters
                  | SerpStatus \<Rightarrow> get_filtered_fallback_products keyword filters
                  | SerpRaise \<Rightarrow> get_filtered_fallback_products keyword filters)))"

section \<open>Relevance scorer\<close>

definition fallback_score :: "nat \<Rightarrow> rat" where
  \<comment> \<open>\<open>max(0.1, 1.0 - (i * 0.1))\<close>\<close>
  "fallback_score i = max (1 / 10) (1 - of_nat i * (1 / 10))"

fun fallback_scoring :: "string \<Rightarrow> nat \<Rightarrow> product list \<Rightarrow> product list" where
  \<comment> \<open>\<open>for i, product in enumerate(products): product.update(...)\<close>, from index \<open>i\<close> on\<close>
  "fallback_scoring expl i [] = []"
| "fallback_scoring expl i (product # rest) =
     product\<lparr>relevance_score := Some (fallback_score i), explanation := Some expl\<rparr>
       # fallback_scoring expl (Suc i) rest"

definition neutral :: "string \<Rightarrow> product \<Rightarrow> product" where
  "neutral expl product = product\<lparr>relevance_score := Some (1 / 2), explanation := Some expl\<rparr>"

definition apply_reply :: "score_reply \<Rightarrow> product \<Rightarrow> product" where
  "apply_reply reply product =
     (case reply of
        Score200 score expl \<Rightarrow>
          product\<lparr>relevance_score := (case score of None \<Rightarrow> relevance_score product
                                                    | Some r \<Rightarrow> Some r),
                  explanation := (case expl of None \<Rightarrow> explanation product
                                              | Some e \<Rightarrow> Some e)\<rparr>
      | Score200BadJson \<Rightarrow> neutral ''Unable to analyze product relevance'' product
      | ScoreStatus \<Rightarrow> neutral ''Analysis unavailable'' product
      | ScoreRaise \<Rightarrow> neutral ''Analysis unavailable'' product)"

fun analyze_loop ::
  "(nat \<Rightarrow> string \<Rightarrow> product \<Rightarrow> score_reply) \<Rightarrow> string \<Rightarrow> nat \<Rightarrow> product list
     \<Rightarrow> bool \<times> product list" where
  \<comment> \<open>the loop over the products with a configured port. Building the prompt reads
      \<open>title\<close>, \<open>price\<close> and \<open>description\<close> and raises on a missing key: the loop
      stops there (\<open>False\<close>) and the products seen before stay updated\<close>
  "analyze_loop port original_query i [] = (True, [])"
| "analyze_loop port original_query i (product # rest) =
     (if title product = None \<or> price product = None \<or> description product = None
      then (False, product # rest)
      else (let (ok, rest') = analyze_loop port original_query (Suc i) rest
            in (ok, apply_reply (port i original_query product) product # rest')))"

definition analyze_products_with_ai ::
  "config \<Rightarrow> ports \<Rightarrow> product list \<Rightarrow> string \<Rightarrow> product list" where
  "analyze_products_with_ai cfg io products_in original_query =
     (if together_api_key cfg = [] \<and> openrouter_api_key cfg = [] then
        fallback_scoring (''Product matches your search for: '' @ original_query) 0 products_in
      else if \<not> scoring_session io then
        fallback_scoring ''Product matches your search criteria'' 0 products_in
      else (case analyze_loop (scoring_port io) original_query 0 products_in of
              (True, analyzed_products) \<Rightarrow> analyzed_products
            | (False, updated) \<Rightarrow>
                fallback_scoring ''Product matches your search criteria'' 0 updated))"

section \<open>Ranker\<close>

definition sort_score :: "product \<Rightarrow> rat" where
  \<comment> \<open>the sort key \<open>x.get("relevance_score", 0)\<close>\<close>
  "sort_score x = get_or (relevance_score x) 0"

definition sorted_reverse :: "('a \<Rightarrow> 'k::linorder) \<Rightarrow> 'a list \<Rightarrow> 'a list" where
  \<comment> \<open>\<open>sorted(xs, key=key, reverse=True)\<close>: the list is reversed, sorted by a stable
      ascending sort and reversed again\<close>
  "sorted_reverse key xs = rev (sort_key key (rev xs))"

definition format_product :: "string \<Rightarrow> product \<Rightarrow> formatted_product" where
  "format_product ident product =
     \<lparr>f_id = ident,
      f_title = get_or (title product) ''Unknown Product'',
      f_description = get_or (description product) [],
      f_price = get_or (price product) ''Price not available'',
      f_currency = rupee,
      f_image_url = get_or (image_url product) ''/static/placeholder-product.svg'',
      f_rating = rating product,
      f_reviews_count = reviews_count product,
      f_availability = ''In Stock'',
      f_source = get_or (source product) ''Unknown'',
      f_url = get_or (url product) ''#'',
      f_relevance_score = get_or (relevance_score product) (1 / 2),
      f_explanation = get_or (explanation product) ''Recommended based on your search criteria''\<rparr>"

fun format_loop :: "(nat \<Rightarrow> string) \<Rightarrow> nat \<Rightarrow> product list \<Rightarrow> formatted_product list" where
  \<comment> \<open>the formatting loop; the i-th product gets the i-th identifier drawn\<close>
  "format_loop draw i [] = []"
| "format_loop draw i (product # rest) =
     format_product (draw i) product # format_loop draw (Suc i) rest"

definition rank_products :: "(nat \<Rightarrow> string) \<Rightarrow> product list \<Rightarrow> formatted_product list" where
  "rank_products draw products_in = format_loop draw 0 (sorted_reverse sort_score products_in)"

definition without_id :: "formatted_product \<Rightarrow> formatted_product" where
  \<comment> \<open>a formatted product with its identifier blanked, to compare two of them up to
      the identifier\<close>
  "without_id f = f\<lparr>f_id := []\<rparr>"

section \<open>One-shot search\<close>

definition search_pipeline :: "config \<Rightarrow> ports \<Rightarrow> product list \<Rightarrow> string \<Rightarrow> formatted_product list" where
  \<comment> \<open>steps 3 and 4: score, then rank\<close>
  "search_pipeline cfg io candidates query =
     rank_products (uuid4 io) (analyze_products_with_ai cfg io candidates query)"

definition process_search_query :: "config \<Rightarrow> ports \<Rightarrow> string \<Rightarrow> search_result" where
  \<comment> \<open>In the handler of the outer \<open>try\<close> nothing can raise in this model, so its own
      handler, which returns no products, has no branch here.\<close>
  "process_search_query cfg io query =
     (case search_products_with_serpapi cfg io (parse_query_with_phi3 cfg io query) of
        Inr search_results \<Rightarrow>
          (let candidates =
                 (if search_results = [] then get_fallback_products query else search_results);
               ranked_products = search_pipeline cfg io candidates query
           in \<lparr>sr_products = take 10 ranked_products,
               sr_explanation = ''Found '' @ str_nat (length ranked_products)
                                @ '' products matching your criteria: '' @ query,
               sr_search_id = uuid4 io (length ranked_products)\<rparr>)
      | Inl e \<Rightarrow>
          (let ranked_products = search_pipeline cfg io (get_fallback_products query) query
           in \<lparr>sr_products = take 10 ranked_products,
               sr_explanation = ''Showing sample results for: '' @ query
                                @ '' (API temporarily unavailable)'',
               sr_search_id = uuid4 io (length ranked_products)\<rparr>))"

section \<open>Conversation session machine\<close>

definition options_prompt :: "filter_spec \<Rightarrow> string" where
  "options_prompt f =
     ''**'' @ name f @ ''**: Please choose from these options:'' @ newline
     @ join newline (map (\<lambda>opt. bullet @ '' '' @ opt) (options f))"

definition filter_response :: "string \<Rightarrow> filter_spec \<Rightarrow> response" where
  "filter_response intro f =
     \<lparr>message = intro @ options_prompt f, has_products = False, products = [],
      filter_options = Some (options f), filter_name = Some (name f)\<rparr>"

definition plain_response :: "string \<Rightarrow> response" where
  "plain_response text =
     \<lparr>message = text, has_products = False, products = [],
      filter_options = None, filter_name = None\<rparr>"

definition products_response :: "string \<Rightarrow> product list \<Rightarrow> response" where
  "products_response text results =
     \<lparr>message = text, has_products = True, products = results,
      filter_options = None, filter_name = None\<rparr>"

definition clarify_text :: string where
  "clarify_text = ''I'' @ apos @ ''d like to help you find products! Please tell me what you''
     @ apos @ ''re looking for (e.g., smartphone, speakers, earphones, laptop, etc.)''"

definition start_over_text :: string where
  "start_over_text = ''I'' @ apos @ ''m sor'' @ ''ry, I encountered an error. Let'' @ apos
     @ ''s start fresh - what product are you looking for?''"

definition handle_message ::
  "config \<Rightarrow> ports \<Rightarrow> string \<Rightarrow> string \<Rightarrow> sessions \<Rightarrow> session
     \<Rightarrow> (py_error + response) \<times> sessions" where
  \<comment> \<open>the body of the \<open>try\<close> once \<open>session\<close> is bound: what it returns or raises,
      and \<open>user_sessions\<close> afterwards. A search with no stored keyword would add text
      to \<open>None\<close> or lower it, and raises.\<close>
  "handle_message cfg io msg session_id us session =
     (if stage session = ''initial'' then
       (case extract_product_keyword msg of
          Some keyword \<Rightarrow>
            (let filters = get_available_filters keyword;
                 us' = us(session_id \<mapsto>
                          session\<lparr>product_keyword := Some keyword, stage := ''getting_filters'',
                                  available_filters := filters\<rparr>)
             in case filters of
                  current_filter # _ \<Rightarrow>
                    (Inr (filter_response
                           (''Great! I found filters for '' @ keyword @ ''. Let'' @ apos
                            @ ''s refine your search step by step.'' @ newline @ newline)
                           current_filter), us')
                | [] \<Rightarrow>
                    (case search_with_keyword cfg io keyword of
                       Inl e \<Rightarrow> (Inl e, us')
                     | Inr results \<Rightarrow>
                         (Inr (products_response
                                (''Here are the search results for '' @ keyword @ '':'')
                                results), us')))
        | None \<Rightarrow> (Inr (plain_response clarify_text), us))
     else if stage session = ''getting_filters'' then
       if current_filter_index session < int (length (available_filters session)) then
         (case py_index (available_filters session) (current_filter_index session) of
            Inl e \<Rightarrow> (Inl e, us)
          | Inr current_filter \<Rightarrow>
              (let answered = session\<lparr>current_filters :=
                                         AList.update (param current_filter) (strip msg)
                                           (current_filters session),
                                       current_filter_index := current_filter_index session + 1\<rparr>
               in if current_filter_index answered < int (length (available_filters answered)) then
                    (case py_index (available_filters answered) (current_filter_index answered) of
                       Inl e \<Rightarrow> (Inl e, us(session_id \<mapsto> answered))
                     | Inr next_filter \<Rightarrow>
                         (Inr (filter_response [] next_filter), us(session_id \<mapsto> answered)))
                  else
                    (let searching = answered\<lparr>stage := ''searching''\<rparr> in
                     case product_keyword searching of
                       None \<Rightarrow> (Inl TypeError, us(session_id \<mapsto> searching))
                     | Some keyword \<Rightarrow>
                         (case search_with_filters cfg io keyword (current_filters searching) of
                            Inl e \<Rightarrow> (Inl e, us(session_id \<mapsto> searching))
                          | Inr results \<Rightarrow>
                              (Inr (products_response
                                     (''Here are your filtered results for '' @ keyword @ '':'')
                                     results),
                               us(session_id \<mapsto> new_session))))))
       else (Inr (plain_response (generate_conversational_response msg)), us)
     else (Inr (plain_response (generate_conversational_response msg)), us))"

definition chat_turn ::
  "config \<Rightarrow> ports \<Rightarrow> string \<Rightarrow> string \<Rightarrow> sessions \<Rightarrow> (py_error + response) \<times> sessions" where
  \<comment> \<open>the whole body of the \<open>try\<close>: a new key gets a session first\<close>
  "chat_turn cfg io msg session_id user_sessions =
     (let us = (if session_id \<notin> dom user_sessions
                then user_sessions(session_id \<mapsto> new_session) else user_sessions);
          session = the (us session_id)
      in handle_message cfg io msg session_id us session)"

definition process_chat_message ::
  "config \<Rightarrow> ports \<Rightarrow> string \<Rightarrow> string \<Rightarrow> sessions \<Rightarrow> response \<times> sessions" where
  \<comment> \<open>the handler of the \<open>try\<close> returns the start-over reply and touches no session\<close>
  "process_chat_message cfg io msg session_id user_sessions =
     (case chat_turn cfg io msg session_id user_sessions of
        (Inl e, us) \<Rightarrow> (plain_response start_over_text, us)
      | (Inr r, us) \<Rightarrow> (r, us))"

text \<open>
  A run of the service: the messages arrive one after the other, each with its session
  key and with what the ports answer at that time. The service starts with no session.
\<close>

fun run_chat :: "config \<Rightarrow> sessions \<Rightarrow> (ports \<times> string \<times> string) list \<Rightarrow> sessions" where
  "run_chat cfg us [] = us"
| "run_chat cfg us ((io, msg, session_id) # rest) =
     run_chat cfg (snd (process_chat_message cfg io msg session_id us)) rest"

section \<open>The filtered fallback read as a filter\<close>

text \<open>
  The loop of the filtered fallback keeps a catalog entry when neither its brand check nor
  its price check ends in \<open>continue\<close>. The definitions below say when that is, by the
  tests the code makes. The brand check passes a candidate when there is no brand
  answer, when the answer is a sentinel, or when the lowered title contains the lowered
  answer. The price check reads a range from the price answer in two cases only: an
  answer that contains \<open>Under\<close> and the currency sign gives an upper bound, and any
  other answer that contains a dash and splits at \<open>" - "\<close> in two numbers gives a band.
  Every other answer, the catalog's own \<open>Above\<close> options among them, gives no range,
  and so does a bound that does not parse. A candidate passes when there is no price
  answer, when its own price does not parse, when there is no range, when its price is
  below the upper bound, or when it is inside the band, ends included.
\<close>

datatype price_range = UnderBound int | Band int int | NoRange

definition candidate_price :: "product \<Rightarrow> int option" where
  \<comment> \<open>the numeric price of a candidate, currency sign and commas removed\<close>
  "candidate_price p =
     (case py_int (replace (replace (get_or (price p) (rupee @ ''0'')) rupee []) '','' []) of
        Inl e \<Rightarrow> None
      | Inr n \<Rightarrow> Some n)"

definition requested_range :: "string \<Rightarrow> price_range" where
  \<comment> \<open>the range the price check reads from a price answer\<close>
  "requested_range price_filter =
     (if py_in (''Under '' @ rupee) price_filter then
        (case split price_filter rupee of
           before # part # others \<Rightarrow>
             (case py_int (replace part '','' []) of
                Inl e \<Rightarrow> NoRange
              | Inr bound \<Rightarrow> UnderBound bound)
         | _ \<Rightarrow> NoRange)
      else if py_in ''-'' price_filter then
        (case split (replace (replace price_filter rupee []) '','' []) '' - '' of
           [low, high] \<Rightarrow>
             (case py_int (strip low) of
                Inl e \<Rightarrow> NoRange
              | Inr lo \<Rightarrow>
                  (case py_int (strip high) of
                     Inl e \<Rightarrow> NoRange
                   | Inr hi \<Rightarrow> Band lo hi))
         | _ \<Rightarrow> NoRange)
      else NoRange)"

definition price_ok :: "(string \<times> string) list \<Rightarrow> product \<Rightarrow> bool" where
  "price_ok filters p =
     (case map_of filters ''price'' of
        None \<Rightarrow> True
      | Some price_filter \<Rightarrow>
          (case candidate_price p of
             None \<Rightarrow> True
           | Some n \<Rightarrow>
               (case requested_range price_filter of
                  UnderBound bound \<Rightarrow> n < bound
                | Band lo hi \<Rightarrow> lo \<le> n \<and> n \<le> hi
                | NoRange \<Rightarrow> True)))"

definition brand_ok :: "(string \<times> string) list \<Rightarrow> product \<Rightarrow> bool" where
  "brand_ok filters p =
     (case map_of filters ''brand'' of
        None \<Rightarrow> True
      | Some brand \<Rightarrow>
          brand \<in> set brand_sentinels
          \<or> (case title p of None \<Rightarrow> False | Some t \<Rightarrow> py_in (lower brand) (lower t)))"

definition filtered_catalog :: "string \<Rightarrow> (string \<times> string) list \<Rightarrow> product list" where
  \<comment> \<open>the entries that pass, each with the explanation of the filters; the catalog as it
      is when none passes\<close>
  "filtered_catalog keyword filters =
     (let catalog = get_fallback_products keyword;
          kept = filter (\<lambda>p. brand_ok filters p \<and> price_ok filters p) catalog
      in if kept = [] then catalog
         else map (\<lambda>p. p\<lparr>explanation := Some (filter_explanation filters)\<rparr>) kept)"

section \<open>Well-formed sessions\<close>

definition stages :: "string set" where
  "stages = {''initial'', ''getting_filters'', ''searching''}"

definition session_inv :: "session \<Rightarrow> bool" where
  \<comment> \<open>what every stored session satisfies: a known stage, nothing answered in the initial
      stage, a cursor inside the filter sequence, the answered keys being the keys of the
      filters before the cursor, and no key twice in the filter sequence\<close>
  "session_inv s \<longleftrightarrow>
     stage s \<in> stages \<and>
     (stage s = ''initial'' \<longrightarrow> current_filters s = [] \<and> current_filter_index s = 0) \<and>
     0 \<le> current_filter_index s \<and>
     current_filter_index s \<le> int (length (available_filters s)) \<and>
     map fst (current_filters s)
       = map param (take (nat (current_filter_index s)) (available_filters s)) \<and>
     distinct (map param (available_filters s))"

definition store_inv :: "sessions \<Rightarrow> bool" where
  "store_inv us \<longleftrightarrow> (\<forall>session_id s. us session_id = Some s \<longrightarrow> session_inv s)"

definition session_of :: "sessions \<Rightarrow> string \<Rightarrow> session" where
  \<comment> \<open>the session a message works on: the stored one, or the one created for a new key\<close>
  "session_of user_sessions session_id =
     (case user_sessions session_id of None \<Rightarrow> new_session | Some s \<Rightarrow> s)"

section \<open>Configurations and runs used as examples\<close>

definition no_keys :: config where
  \<comment> \<open>no environment variable is set\<close>
  "no_keys = \<lparr>phi3_api_key = [], serpapi_key = [], together_api_key = [],
               openrouter_api_key = []\<rparr>"

definition serp_key_only :: config where
  \<comment> \<open>only the search key is set\<close>
  "serp_key_only = \<lparr>phi3_api_key = [], serpapi_key = ''key'', together_api_key = [],
                    openrouter_api_key = []\<rparr>"

definition dead_ports :: ports where
  \<comment> \<open>every call to a service fails; identifiers are drawn as 0, 1, 2, ...\<close>
  "dead_ports = \<lparr>phi3_port = (\<lambda>_. PhiRaise), serpapi_port = (\<lambda>_. SerpRaise),
                 scoring_session = False, scoring_port = (\<lambda>_ _ _. ScoreRaise),
                 uuid4 = str_nat\<rparr>"

definition empty_search_ports :: ports where
  \<comment> \<open>the search answers with status 200 and no shopping result\<close>
  "empty_search_ports = dead_ports\<lparr>serpapi_port := (\<lambda>_. Serp200 [])\<rparr>"

definition scored :: "string \<Rightarrow> rat \<Rightarrow> product" where
  \<comment> \<open>a scored candidate with a title and no other key\<close>
  "scored t s =
     \<lparr>title = Some t, price = None, description = None, image_url = None, rating = None,
      reviews_count = None, source = None, url = None, relevance_score = Some s,
      explanation = None\<rparr>"

definition priced :: "string \<Rightarrow> product" where
  \<comment> \<open>a candidate whose price is the given text\<close>
  "priced text = (scored ''x'' 1)\<lparr>price := Some text\<rparr>"

definition unscored :: "string \<Rightarrow> product" where
  \<comment> \<open>a candidate with a title and no relevance score\<close>
  "unscored t = (scored t 0)\<lparr>relevance_score := None\<rparr>"

definition spec_example_candidates :: "product list" where
  \<comment> \<open>four candidates with the scores 0.2, 0.9, 0.9 and 0.1\<close>
  "spec_example_candidates =
     [scored ''a'' (1 / 5), scored ''b'' (9 / 10), scored ''c'' (9 / 10), scored ''d'' (1 / 10)]"

definition unary :: "nat \<Rightarrow> string" where
  \<comment> \<open>identifiers that differ from draw to draw\<close>
  "unary i = replicate i (CHR ''u'')"

definition dialogue :: "ports \<Rightarrow> string list \<Rightarrow> (ports \<times> string \<times> string) list" where
  \<comment> \<open>messages of the one session key the HTTP layer uses, all met by the same ports\<close>
  "dialogue io msgs = map (\<lambda>msg. (io, msg, ''user_session'')) msgs"

definition laptop_answers :: "string list" where
  \<comment> \<open>a request for a laptop and the answers to the first three of its four filters\<close>
  "laptop_answers =
     [''I need a laptop'', ''HP'', rupee @ ''50,000 - '' @ rupee @ ''80,000'', ''Intel Core i5'']"

definition laptop_session :: session where
  \<comment> \<open>the session after \<open>laptop_answers\<close>\<close>
  "laptop_session =
     \<lparr>stage = ''getting_filters'', product_keyword = Some ''laptop'',
      current_filters = [(''brand'', ''HP''),
                         (''price'', rupee @ ''50,000 - '' @ rupee @ ''80,000''),
                         (''processor'', ''Intel Core i5'')],
      available_filters = get_available_filters ''laptop'',
      current_filter_index = 3\<rparr>"

definition phone_answers :: "string list" where
  \<comment> \<open>a request for a smartphone; the price is answered in free text, without the
      currency sign\<close>
  "phone_answers = [''I need a smartphone'', ''Samsung'', ''Under 10000'', ''128GB'']"

definition phone_session_after_error :: session where
  "phone_session_after_error =
     \<lparr>stage = ''searching'', product_keyword = Some ''smartphone'',
      current_filters = [(''brand'', ''Samsung''), (''price'', ''Under 10000''),
                         (''storage'', ''128GB''), (''ram'', ''8GB'')],
      available_filters = get_available_filters ''smartphone'',
      current_filter_index = 4\<rparr>"

section \<open>Properties\<close>

subsection \<open>The filter catalog is never empty\<close>

text \<open>
  Claim C10. For every keyword, in the vocabulary or not, the filter catalog returns at
  least two filters. So a message with a keyword that reaches a session in its initial
  stage always gets the prompt of the first filter and puts the session in the stage of
  filter collection, whatever the ports would answer: the branch that searches at once,
  for a category without filters, is never taken.
\<close>

theorem filter_catalog_never_empty:
  "2 \<le> length (get_available_filters k) \<and>
   (extract_product_keyword msg = Some k \<and> stage (session_of us sid) = ''initial'' \<longrightarrow>
      process_chat_message cfg io msg sid us =
        (filter_response
           (''Great! I found filters for '' @ k @ ''. Let'' @ apos
              @ ''s refine your search step by step.'' @ newline @ newline)
           (hd (get_available_filters k)),
         us(sid \<mapsto> (session_of us sid)\<lparr>product_keyword := Some k, stage := ''getting_filters'',
                                         available_filters := get_available_filters k\<rparr>)))"
proof -
  have len: "2 \<le> length (get_available_filters k)"
    by (simp add: get_available_filters_def)
  then obtain f fs where "get_available_filters k = f # fs"
    by (cases "get_available_filters k") auto
  with len show ?thesis
    by (auto simp: process_chat_message_def chat_turn_def handle_message_def session_of_def
                   Let_def dom_def
             split: option.splits)
qed

theorem filter_catalog_never_empty_witness:
  "extract_product_keyword ''I need a Laptop'' = Some ''laptop'' \<and>
   stage (session_of Map.empty ''user_session'') = ''initial'' \<and>
   process_chat_message no_keys dead_ports ''I need a Laptop'' ''user_session'' Map.empty =
     (filter_response
        (''Great! I found filters for laptop. Let'' @ apos
           @ ''s refine your search step by step.'' @ newline @ newline)
        (hd (get_available_filters ''laptop'')),
      [''user_session'' \<mapsto>
         new_session\<lparr>product_keyword := Some ''laptop'', stage := ''getting_filters'',
                      available_filters := get_available_filters ''laptop''\<rparr>])"
proof -
  have kw: "extract_product_keyword ''I need a Laptop'' = Some ''laptop''"
    by code_simp
  have st: "stage (session_of Map.empty ''user_session'') = ''initial''"
    by (simp add: session_of_def new_session_def)
  from filter_catalog_never_empty
         [of "''laptop''" "''I need a Laptop''" Map.empty "''user_session''" no_keys dead_ports]
       kw st
  show ?thesis by (simp add: session_of_def)
qed

subsection \<open>Sorting and formatting\<close>

lemma sorted_reverse_descending: "sorted_wrt (\<ge>) (map key (sorted_reverse key xs))"
proof -
  have "sorted (map key (sort_key key (rev xs)))" by (rule sorted_sort_key)
  then show ?thesis
    by (simp add: sorted_reverse_def rev_map[symmetric] sorted_wrt_rev)
qed

lemma sorted_reverse_stable:
  "filter (\<lambda>x. key x = k) (sorted_reverse key xs) = filter (\<lambda>x. key x = k) xs"
  by (simp add: sorted_reverse_def rev_filter[symmetric] sort_key_stable)

lemma mset_sorted_reverse: "mset (sorted_reverse key xs) = mset xs"
  by (simp add: sorted_reverse_def)

lemma length_sorted_reverse: "length (sorted_reverse key xs) = length xs"
  by (simp add: sorted_reverse_def)

lemma set_sorted_reverse: "set (sorted_reverse key xs) = set xs"
  by (simp add: sorted_reverse_def)

lemma without_id_format_loop:
  "map without_id (format_loop draw i ps) = map (format_product []) ps"
  by (induction ps arbitrary: i) (simp_all add: without_id_def format_product_def)

lemma length_format_loop: "length (format_loop draw i ps) = length ps"
  by (induction ps arbitrary: i) simp_all

lemma ids_format_loop: "map f_id (format_loop draw i ps) = map draw [i ..< i + length ps]"
  by (induction ps arbitrary: i) (simp_all add: format_product_def upt_rec)

lemma scores_format_loop:
  "map f_relevance_score (format_loop draw i ps) = map (\<lambda>p. get_or (relevance_score p) (1 / 2)) ps"
  by (induction ps arbitrary: i) (simp_all add: format_product_def)

lemma score_of_scored:
  "relevance_score p \<noteq> None \<Longrightarrow> get_or (relevance_score p) d = sort_score p"
  by (auto simp: get_or_def sort_score_def)

subsection \<open>The ranker sorts by score, descending and stable\<close>

text \<open>
  Claim C6. On a list of scored candidates (each has a relevance score) the ranker's
  output is in descending order of relevance score, and the sort is stable: for every
  score, the output products with that score are the input candidates with that score, in
  their input order. The output is the input, formatted and reordered; formatted products
  are compared up to their identifier. With the scores 0.2, 0.9, 0.9, 0.1 the two
  candidates scored 0.9 come first, in their input order.
\<close>

theorem ranker_stable_descending:
  assumes scored: "\<forall>p \<in> set ps. relevance_score p \<noteq> None"
  shows "sorted_wrt (\<ge>) (map f_relevance_score (rank_products draw ps)) \<and>
         (\<forall>k. map without_id (filter (\<lambda>f. f_relevance_score f = k) (rank_products draw ps))
              = map (format_product []) (filter (\<lambda>p. relevance_score p = Some k) ps)) \<and>
         mset (map without_id (rank_products draw ps)) = mset (map (format_product []) ps)"
proof -
  let ?qs = "sorted_reverse sort_score ps"
  have qs_scored: "\<forall>p \<in> set ?qs. relevance_score p \<noteq> None"
    using scored by (simp add: set_sorted_reverse)
  have "map f_relevance_score (rank_products draw ps) = map sort_score ?qs"
    unfolding rank_products_def scores_format_loop
    using qs_scored by (intro map_cong refl) (simp add: score_of_scored)
  then have desc: "sorted_wrt (\<ge>) (map f_relevance_score (rank_products draw ps))"
    by (simp add: sorted_reverse_descending)
  have stable: "map without_id (filter (\<lambda>f. f_relevance_score f = k) (rank_products draw ps))
              = map (format_product []) (filter (\<lambda>p. relevance_score p = Some k) ps)" for k
  proof -
    have "map without_id (filter (\<lambda>f. f_relevance_score f = k) (rank_products draw ps))
          = filter (\<lambda>f. f_relevance_score f = k) (map without_id (rank_products draw ps))"
      by (simp add: filter_map o_def without_id_def)
    also have "\<dots> = map (format_product [])
                       (filter (\<lambda>p. get_or (relevance_score p) (1 / 2) = k) ?qs)"
      by (simp add: rank_products_def without_id_format_loop filter_map o_def
                    format_product_def)
    also have "filter (\<lambda>p. get_or (relevance_score p) (1 / 2) = k) ?qs
               = filter (\<lambda>p. sort_score p = k) ?qs"
      using qs_scored by (intro filter_cong refl) (simp add: score_of_scored)
    also have "\<dots> = filter (\<lambda>p. sort_score p = k) ps"
      by (rule sorted_reverse_stable)
    also have "\<dots> = filter (\<lambda>p. relevance_score p = Some k) ps"
      using scored by (intro filter_cong refl) (auto simp: sort_score_def get_or_def)
    finally show ?thesis .
  qed
  have "mset (map without_id (rank_products draw ps)) = mset (map (format_product []) ps)"
    by (simp add: rank_products_def without_id_format_loop mset_sorted_reverse)
  with desc stable show ?thesis by blast
qed

theorem ranker_stable_descending_witness:
  "map relevance_score spec_example_candidates
     = [Some (1 / 5), Some (9 / 10), Some (9 / 10), Some (1 / 10)] \<and>
   sorted_wrt (\<ge>) (map f_relevance_score (rank_products str_nat spec_example_candidates)) \<and>
   map without_id (filter (\<lambda>f. f_relevance_score f = 9 / 10)
                     (rank_products str_nat spec_example_candidates))
     = map (format_product []) [scored ''b'' (9 / 10), scored ''c'' (9 / 10)] \<and>
   map f_title (rank_products str_nat spec_example_candidates) = [''b'', ''c'', ''a'', ''d'']"
proof -
  have h: "\<forall>p \<in> set spec_example_candidates. relevance_score p \<noteq> None"
    by code_simp
  have scores: "map relevance_score spec_example_candidates
                = [Some (1 / 5), Some (9 / 10), Some (9 / 10), Some (1 / 10)]"
    by (simp add: spec_example_candidates_def scored_def)
  have tied: "filter (\<lambda>p. relevance_score p = Some (9 / 10)) spec_example_candidates
              = [scored ''b'' (9 / 10), scored ''c'' (9 / 10)]"
    by (simp add: spec_example_candidates_def scored_def)
  have order: "map f_title (rank_products str_nat spec_example_candidates)
               = [''b'', ''c'', ''a'', ''d'']"
    by code_simp
  from ranker_stable_descending [OF h, of str_nat]
  have "sorted_wrt (\<ge>) (map f_relevance_score (rank_products str_nat spec_example_candidates))"
    and "map without_id (filter (\<lambda>f. f_relevance_score f = 9 / 10)
                           (rank_products str_nat spec_example_candidates))
         = map (format_product [])
             (filter (\<lambda>p. relevance_score p = Some (9 / 10)) spec_example_candidates)"
    by blast+
  with scores tied order show ?thesis by simp
qed

subsection \<open>The fallback scorer\<close>

lemma length_fallback_scoring: "length (fallback_scoring expl j ps) = length ps"
  by (induction ps arbitrary: j) simp_all

lemma nth_fallback_scoring:
  "i < length ps \<Longrightarrow>
   fallback_scoring expl j ps ! i
     = (ps ! i)\<lparr>relevance_score := Some (fallback_score (j + i)), explanation := Some expl\<rparr>"
proof (induction ps arbitrary: i j)
  case Nil
  then show ?case by simp
next
  case (Cons p ps)
  show ?case
  proof (cases i)
    case 0
    then show ?thesis by simp
  next
    case (Suc n)
    with Cons.prems have "n < length ps" by simp
    from Cons.IH [OF this, of "Suc j"] Suc show ?thesis by simp
  qed
qed

text \<open>
  Claim C8. With no scoring key configured the scorer keeps the length and the order of
  the candidate list, and its i-th candidate (counted from 0) is the i-th input
  candidate with the score \<open>max(0.1, 1.0 - i * 0.1)\<close> and an explanation made of a
  fixed text and the original query. Three candidates get the scores 1.0, 0.9 and 0.8.
  Scores are exact rationals here; the rounding of floats is outside the model.
\<close>

theorem fallback_scorer_linear_decay:
  assumes "together_api_key cfg = [] \<and> openrouter_api_key cfg = []"
  shows "length (analyze_products_with_ai cfg io ps query) = length ps \<and>
         (\<forall>i < length ps.
            analyze_products_with_ai cfg io ps query ! i
              = (ps ! i)\<lparr>relevance_score := Some (max (1 / 10) (1 - of_nat i * (1 / 10))),
                        explanation := Some (''Product matches your search for: '' @ query)\<rparr>)"
  using assms
  by (simp add: analyze_products_with_ai_def length_fallback_scoring nth_fallback_scoring
                fallback_score_def)

theorem fallback_scorer_linear_decay_witness:
  "together_api_key no_keys = [] \<and> openrouter_api_key no_keys = [] \<and>
   length (analyze_products_with_ai no_keys dead_ports
             [scored ''a'' 0, scored ''b'' 0, scored ''c'' 0] ''phone'') = 3 \<and>
   analyze_products_with_ai no_keys dead_ports
       [scored ''a'' 0, scored ''b'' 0, scored ''c'' 0] ''phone'' ! 2
     = (scored ''c'' 0)\<lparr>relevance_score := Some (4 / 5),
                          explanation := Some ''Product matches your search for: phone''\<rparr> \<and>
   map relevance_score
     (analyze_products_with_ai no_keys dead_ports
        [scored ''a'' 0, scored ''b'' 0, scored ''c'' 0] ''phone'')
     = [Some 1, Some (9 / 10), Some (4 / 5)]"
proof -
  have h: "together_api_key no_keys = [] \<and> openrouter_api_key no_keys = []"
    by (simp add: no_keys_def)
  have three: "map relevance_score
     (analyze_products_with_ai no_keys dead_ports
        [scored ''a'' 0, scored ''b'' 0, scored ''c'' 0] ''phone'')
     = [Some 1, Some (9 / 10), Some (4 / 5)]"
    by (simp add: analyze_products_with_ai_def no_keys_def fallback_score_def)
  note inst = fallback_scorer_linear_decay
                [OF h, of dead_ports "[scored ''a'' 0, scored ''b'' 0, scored ''c'' 0]" "''phone''"]
  from inst have len: "length (analyze_products_with_ai no_keys dead_ports
             [scored ''a'' 0, scored ''b'' 0, scored ''c'' 0] ''phone'') = 3"
    by simp
  from inst have "analyze_products_with_ai no_keys dead_ports
       [scored ''a'' 0, scored ''b'' 0, scored ''c'' 0] ''phone'' ! 2
     = ([scored ''a'' 0, scored ''b'' 0, scored ''c'' 0] ! 2)
         \<lparr>relevance_score := Some (max (1 / 10) (1 - of_nat 2 * (1 / 10))),
          explanation := Some (''Product matches your search for: '' @ ''phone'')\<rparr>"
    by (elim conjE allE [of _ 2]) simp
  then have third: "analyze_products_with_ai no_keys dead_ports
       [scored ''a'' 0, scored ''b'' 0, scored ''c'' 0] ''phone'' ! 2
     = (scored ''c'' 0)\<lparr>relevance_score := Some (4 / 5),
                          explanation := Some ''Product matches your search for: phone''\<rparr>"
    by simp
  from h len third three show ?thesis by simp
qed

subsection \<open>The ranker formats every candidate; the one-shot search truncates\<close>

lemma length_rank_products: "length (rank_products draw ps) = length ps"
  by (simp add: rank_products_def length_format_loop length_sorted_reverse)

lemma ids_rank_products: "map f_id (rank_products draw ps) = map draw [0 ..< length ps]"
  by (simp add: rank_products_def ids_format_loop length_sorted_reverse)

lemma inj_unary: "inj unary"
  by (auto simp: inj_def unary_def)

text \<open>
  Claim C7, as stated, fails: the ranker does not truncate. Eleven scored candidates
  come back as eleven formatted products.
\<close>

theorem ranker_does_not_truncate:
  "\<not> length (rank_products unary (replicate 11 (scored ''a'' (1 / 2)))) \<le> 10"
  by (simp add: length_rank_products)

text \<open>
  Claim C7, amended. The ranker returns one formatted product per candidate, whatever
  the length of its input, in descending order of the sort key: the relevance score, or
  0 for a candidate that has none (such a candidate is emitted with the score 0.5). So on
  scored candidates the emitted scores descend, and none of the products after the tenth
  has a higher score than one of the first ten. The truncation is done by the one-shot
  search, which emits the first ten products of the ranking. A formatted product has the
  placeholder image, \<open>Price not available\<close>, \<open>Unknown\<close> and \<open>#\<close> where the candidate
  has no image, price, source or url, the candidate's own value otherwise, and always
  \<open>In Stock\<close>. The i-th product gets the i-th identifier drawn, so the identifiers of one
  ranking are pairwise different whenever the draws are.
\<close>

theorem ranker_formats_all_search_truncates:
  "length (rank_products draw ps) = length ps \<and>
   (\<exists>qs. mset qs = mset ps \<and>
      sorted_wrt (\<ge>) (map (\<lambda>p. case relevance_score p of None \<Rightarrow> 0 | Some v \<Rightarrow> v) qs) \<and>
      map without_id (rank_products draw ps) = map (format_product []) qs) \<and>
   ((\<forall>p \<in> set ps. relevance_score p \<noteq> None) \<longrightarrow>
      sorted_wrt (\<ge>) (map f_relevance_score (rank_products draw ps))) \<and>
   ((\<forall>p \<in> set ps. relevance_score p \<noteq> None) \<longrightarrow>
      (\<forall>f \<in> set (take 10 (rank_products draw ps)).
         \<forall>g \<in> set (drop 10 (rank_products draw ps)).
           f_relevance_score g \<le> f_relevance_score f)) \<and>
   (\<exists>candidates.
      sr_products (process_search_query cfg io query)
        = take 10 (rank_products (uuid4 io)
                     (analyze_products_with_ai cfg io candidates query))) \<and>
   length (sr_products (process_search_query cfg io query)) \<le> 10 \<and>
   mset (map without_id (rank_products draw ps)) = mset (map (format_product []) ps) \<and>
   f_image_url (format_product ident p)
     = (case image_url p of None \<Rightarrow> ''/static/placeholder-product.svg'' | Some v \<Rightarrow> v) \<and>
   f_price (format_product ident p)
     = (case price p of None \<Rightarrow> ''Price not available'' | Some v \<Rightarrow> v) \<and>
   f_availability (format_product ident p) = ''In Stock'' \<and>
   f_source (format_product ident p) = (case source p of None \<Rightarrow> ''Unknown'' | Some v \<Rightarrow> v) \<and>
   f_url (format_product ident p) = (case url p of None \<Rightarrow> ''#'' | Some v \<Rightarrow> v) \<and>
   map f_id (rank_products draw ps) = map draw [0 ..< length ps] \<and>
   (inj draw \<longrightarrow> distinct (map f_id (rank_products draw ps)))"
proof -
  let ?r = "rank_products draw ps"
  let ?qs = "sorted_reverse sort_score ps"
  let ?key = "\<lambda>p. case relevance_score p of None \<Rightarrow> (0::rat) | Some v \<Rightarrow> v"
  have key: "sort_score = ?key"
    by (rule ext) (simp add: sort_score_def get_or_def)
  have "sorted_wrt (\<ge>) (map sort_score ?qs)"
    by (rule sorted_reverse_descending)
  then have "mset ?qs = mset ps \<and> sorted_wrt (\<ge>) (map ?key ?qs)
             \<and> map without_id ?r = map (format_product []) ?qs"
    unfolding key [symmetric]
    by (simp add: mset_sorted_reverse rank_products_def without_id_format_loop)
  then have by_key: "\<exists>qs. mset qs = mset ps \<and> sorted_wrt (\<ge>) (map ?key qs)
                          \<and> map without_id ?r = map (format_product []) qs"
    by (rule exI)
  have desc: "sorted_wrt (\<ge>) (map f_relevance_score ?r)"
    if scored: "\<forall>p \<in> set ps. relevance_score p \<noteq> None"
  proof -
    have "\<forall>p \<in> set ?qs. relevance_score p \<noteq> None"
      using scored by (simp add: set_sorted_reverse)
    then have "map f_relevance_score ?r = map sort_score ?qs"
      unfolding rank_products_def scores_format_loop
      by (intro map_cong refl) (simp add: score_of_scored)
    then show ?thesis
      by (simp add: sorted_reverse_descending)
  qed
  have top: "\<forall>f \<in> set (take 10 ?r). \<forall>g \<in> set (drop 10 ?r).
               f_relevance_score g \<le> f_relevance_score f"
    if scored: "\<forall>p \<in> set ps. relevance_score p \<noteq> None"
  proof -
    from desc [OF scored]
    have "sorted_wrt (\<ge>) (map f_relevance_score (take 10 ?r @ drop 10 ?r))"
      by simp
    then show ?thesis
      unfolding map_append sorted_wrt_append by auto
  qed
  have search: "\<exists>candidates.
      sr_products (process_search_query cfg io query)
        = take 10 (rank_products (uuid4 io)
                     (analyze_products_with_ai cfg io candidates query))"
    by (auto simp: process_search_query_def search_pipeline_def Let_def split: sum.splits)
  then have short: "length (sr_products (process_search_query cfg io query)) \<le> 10"
    by auto
  have perm: "mset (map without_id ?r) = mset (map (format_product []) ps)"
    by (simp add: rank_products_def without_id_format_loop mset_sorted_reverse)
  have fields:
    "f_image_url (format_product ident p)
       = (case image_url p of None \<Rightarrow> ''/static/placeholder-product.svg'' | Some v \<Rightarrow> v)"
    "f_price (format_product ident p)
       = (case price p of None \<Rightarrow> ''Price not available'' | Some v \<Rightarrow> v)"
    "f_availability (format_product ident p) = ''In Stock''"
    "f_source (format_product ident p) = (case source p of None \<Rightarrow> ''Unknown'' | Some v \<Rightarrow> v)"
    "f_url (format_product ident p) = (case url p of None \<Rightarrow> ''#'' | Some v \<Rightarrow> v)"
    by (simp_all add: format_product_def get_or_def)
  have fresh: "distinct (map f_id ?r)" if "inj draw"
    using that by (auto simp: ids_rank_products distinct_map intro: inj_on_subset)
  from by_key desc top search short perm fields fresh
       length_rank_products [of draw ps] ids_rank_products [of draw ps]
  show ?thesis
    by (intro conjI impI) (assumption | blast)+
qed

theorem ranker_formats_all_search_truncates_witness:
  "map relevance_score spec_example_candidates
     = [Some (1 / 5), Some (9 / 10), Some (9 / 10), Some (1 / 10)] \<and>
   inj unary \<and>
   length (rank_products unary spec_example_candidates) = length spec_example_candidates \<and>
   sorted_wrt (\<ge>) (map f_relevance_score (rank_products unary spec_example_candidates)) \<and>
   map f_relevance_score (rank_products unary spec_example_candidates)
     = [9 / 10, 9 / 10, 1 / 5, 1 / 10] \<and>
   map f_title (rank_products unary [unscored ''u'', scored ''v'' (3 / 10)]) = [''v'', ''u''] \<and>
   map f_relevance_score (rank_products unary [unscored ''u'', scored ''v'' (3 / 10)])
     = [3 / 10, 1 / 2] \<and>
   length (sr_products (process_search_query no_keys dead_ports ''laptop'')) \<le> 10 \<and>
   distinct (map f_id (rank_products unary spec_example_candidates)) \<and>
   f_image_url (format_product [] (scored ''a'' 1)) = ''/static/placeholder-product.svg'' \<and>
   f_price (format_product [] (scored ''a'' 1)) = ''Price not available'' \<and>
   f_source (format_product [] (scored ''a'' 1)) = ''Unknown'' \<and>
   f_url (format_product [] (scored ''a'' 1)) = ''#''"
proof -
  have h: "\<forall>p \<in> set spec_example_candidates. relevance_score p \<noteq> None"
    by code_simp
  have scores: "map relevance_score spec_example_candidates
                = [Some (1 / 5), Some (9 / 10), Some (9 / 10), Some (1 / 10)]"
    by (simp add: spec_example_candidates_def scored_def)
  have emitted: "map f_relevance_score (rank_products unary spec_example_candidates)
                 = [9 / 10, 9 / 10, 1 / 5, 1 / 10]"
    and mixed: "map f_title (rank_products unary [unscored ''u'', scored ''v'' (3 / 10)])
                = [''v'', ''u'']"
    and mixed_scores:
      "map f_relevance_score (rank_products unary [unscored ''u'', scored ''v'' (3 / 10)])
       = [3 / 10, 1 / 2]"
    by code_simp+
  have absent: "image_url (scored ''a'' 1) = None" "price (scored ''a'' 1) = None"
    "source (scored ''a'' 1) = None" "url (scored ''a'' 1) = None"
    by (simp_all add: scored_def)
  note inst = ranker_formats_all_search_truncates
                [of unary spec_example_candidates no_keys dead_ports "''laptop''" "[]"
                    "scored ''a'' 1"]
  from inst h inj_unary
  have len: "length (rank_products unary spec_example_candidates)
             = length spec_example_candidates"
    and desc: "sorted_wrt (\<ge>) (map f_relevance_score
                                   (rank_products unary spec_example_candidates))"
    and short: "length (sr_products (process_search_query no_keys dead_ports ''laptop'')) \<le> 10"
    and fresh: "distinct (map f_id (rank_products unary spec_example_candidates))"
    by blast+
  from inst
  have img: "f_image_url (format_product [] (scored ''a'' 1)) = ''/static/placeholder-product.svg''"
    and prc: "f_price (format_product [] (scored ''a'' 1)) = ''Price not available''"
    and src: "f_source (format_product [] (scored ''a'' 1)) = ''Unknown''"
    and lnk: "f_url (format_product [] (scored ''a'' 1)) = ''#''"
    unfolding absent by simp_all
  show ?thesis
    by (intro conjI)
       (fact scores inj_unary len desc emitted mixed mixed_scores short fresh img prc src lnk)+
qed

subsection \<open>The filtered fallback\<close>

lemma fallback_catalog_nonempty: "get_fallback_products query \<noteq> []"
  by (simp add: get_fallback_products_def Let_def)

lemma fallback_catalog_titled: "\<forall>p \<in> set (get_fallback_products query). title p \<noteq> None"
  by (simp add: get_fallback_products_def Let_def)

lemma py_index_second:
  "py_index xs 1 = (case xs of a # b # others \<Rightarrow> Inr b | _ \<Rightarrow> Inl IndexError)"
  by (auto simp: py_index_def split: list.splits)

lemma brand_check_verdict:
  "title p \<noteq> None \<Longrightarrow> brand_check filters p = Inr (if brand_ok filters p then Keep else Skip)"
  by (auto simp: brand_check_def brand_ok_def split: option.splits)

lemma price_check_verdict:
  "price_check filters p = (if price_ok filters p then Keep else Skip)"
proof (cases "map_of filters ''price''")
  case None
  then show ?thesis by (simp add: price_check_def price_ok_def)
next
  case (Some price_filter)
  show ?thesis
  proof (cases "candidate_price p")
    case None
    with Some show ?thesis
      by (simp add: price_check_def price_ok_def candidate_price_def Let_def
               split: sum.splits)
  next
    case (Some n)
    then have n: "py_int (replace (replace (get_or (price p) (rupee @ ''0'')) rupee []) '','' [])
                  = Inr n"
      by (simp add: candidate_price_def split: sum.splits)
    consider (under) "py_in (''Under '' @ rupee) price_filter"
      | (band) "\<not> py_in (''Under '' @ rupee) price_filter" "py_in ''-'' price_filter"
      | (neither) "\<not> py_in (''Under '' @ rupee) price_filter" "\<not> py_in ''-'' price_filter"
      by blast
    then show ?thesis
    proof cases
      case under
      with \<open>map_of filters ''price'' = Some price_filter\<close> Some n show ?thesis
        by (auto simp: price_check_def price_ok_def requested_range_def Let_def
                       py_index_second
                 split: sum.splits list.splits)
    next
      case band
      with \<open>map_of filters ''price'' = Some price_filter\<close> Some n show ?thesis
        by (auto simp: price_check_def price_ok_def requested_range_def Let_def
                 split: sum.splits list.splits)
    next
      case neither
      with \<open>map_of filters ''price'' = Some price_filter\<close> Some n show ?thesis
        by (simp add: price_check_def price_ok_def requested_range_def Let_def)
    qed
  qed
qed

lemma filter_fallback_loop_filter:
  "\<forall>p \<in> set ps. title p \<noteq> None \<Longrightarrow>
   filter_fallback_loop filters ps
     = Inr (map (\<lambda>p. p\<lparr>explanation := Some (filter_explanation filters)\<rparr>)
              (filter (\<lambda>p. brand_ok filters p \<and> price_ok filters p) ps))"
  by (induction ps) (simp_all add: brand_check_verdict price_check_verdict)

lemma filtered_fallback_refines:
  "get_filtered_fallback_products keyword filters = Inr (filtered_catalog keyword filters)"
proof -
  have "filter_fallback_loop filters (get_fallback_products keyword)
     = Inr (map (\<lambda>p. p\<lparr>explanation := Some (filter_explanation filters)\<rparr>)
              (filter (\<lambda>p. brand_ok filters p \<and> price_ok filters p)
                 (get_fallback_products keyword)))"
    by (rule filter_fallback_loop_filter) (rule fallback_catalog_titled)
  then show ?thesis
    by (simp add: get_filtered_fallback_products_def filtered_catalog_def Let_def)
qed

lemma filtered_catalog_nonempty: "filtered_catalog keyword filters \<noteq> []"
  by (simp add: filtered_catalog_def Let_def fallback_catalog_nonempty)

text \<open>
  Claim C5, as stated, fails: the price filter is not applied to every requested bound.
  The price filter of the phones offers \<open>Above 60,000\<close>; with that answer the two
  phones of the catalog, priced 38,999 and 31,999, both come back, each explained as
  matching the filter. The same holds for \<open>Above 35,000\<close>, which only the first phone
  satisfies.
\<close>

theorem above_answer_removes_nothing:
  "options (get_available_filters ''phone'' ! 1) ! 4 = ''Above '' @ rupee @ ''60,000'' \<and>
   map candidate_price (get_fallback_products ''phone'') = [Some 38999, Some 31999] \<and>
   map_sum id (map price)
     (get_filtered_fallback_products ''phone'' [(''price'', ''Above '' @ rupee @ ''60,000'')])
     = Inr [Some (rupee @ ''38,999''), Some (rupee @ ''31,999'')] \<and>
   map_sum id (map explanation)
     (get_filtered_fallback_products ''phone'' [(''price'', ''Above '' @ rupee @ ''60,000'')])
     = Inr [Some (''Matches your filters - Price: Above '' @ rupee @ ''60,000''),
            Some (''Matches your filters - Price: Above '' @ rupee @ ''60,000'')] \<and>
   map_sum id (map price)
     (get_filtered_fallback_products ''phone'' [(''price'', ''Above '' @ rupee @ ''35,000'')])
     = Inr [Some (rupee @ ''38,999''), Some (rupee @ ''31,999'')]"
  by code_simp

text \<open>
  Claim C5, amended. For every keyword and every map of answered filters, the filtered
  fallback raises nothing and returns the catalog entries of the keyword that pass its
  brand check and its price check, each with the explanation of the filters, or the
  whole unfiltered catalog when no entry passes; so it never returns an empty list. The
  brand check is the case-insensitive substring test on the title, skipped for a
  sentinel. The price check acts on two kinds of answer only: with an upper bound read
  from an \<open>Under\<close> answer a candidate passes exactly when its price is below the bound,
  and with a band read from an \<open>A - B\<close> answer exactly when its price is inside the
  band, ends included. An answer that has neither the \<open>Under\<close> text with the currency
  sign nor a dash, as the \<open>Above\<close> options, removes no candidate, and a candidate
  whose price does not parse is kept.
\<close>

theorem filtered_fallback_never_empty:
  "get_filtered_fallback_products keyword filters = Inr (filtered_catalog keyword filters)
   \<and> filtered_catalog keyword filters \<noteq> []
   \<and> (filter (\<lambda>p. brand_ok filters p \<and> price_ok filters p)
          (get_fallback_products keyword) = []
        \<longrightarrow> get_filtered_fallback_products keyword filters
              = Inr (get_fallback_products keyword))
   \<and> (map_of fs1 ''price'' = Some answer1 \<and> candidate_price p1 = Some n1
        \<and> requested_range answer1 = UnderBound bound
        \<longrightarrow> price_ok fs1 p1 = (n1 < bound))
   \<and> (map_of fs2 ''price'' = Some answer2 \<and> candidate_price p2 = Some n2
        \<and> requested_range answer2 = Band lo hi
        \<longrightarrow> price_ok fs2 p2 = (lo \<le> n2 \<and> n2 \<le> hi))
   \<and> (map_of fs3 ''price'' = Some answer3 \<and> \<not> py_in (''Under '' @ rupee) answer3
        \<and> \<not> py_in ''-'' answer3
        \<longrightarrow> price_ok fs3 p3)
   \<and> (candidate_price p4 = None \<longrightarrow> price_ok fs4 p4)"
proof -
  have under: "price_ok fs1 p1 = (n1 < bound)"
    if "map_of fs1 ''price'' = Some answer1" "candidate_price p1 = Some n1"
       "requested_range answer1 = UnderBound bound"
    using that by (simp add: price_ok_def)
  have band: "price_ok fs2 p2 = (lo \<le> n2 \<and> n2 \<le> hi)"
    if "map_of fs2 ''price'' = Some answer2" "candidate_price p2 = Some n2"
       "requested_range answer2 = Band lo hi"
    using that by (simp add: price_ok_def)
  have other: "price_ok fs3 p3"
    if "map_of fs3 ''price'' = Some answer3" "\<not> py_in (''Under '' @ rupee) answer3"
       "\<not> py_in ''-'' answer3"
    using that by (simp add: price_ok_def requested_range_def split: option.splits)
  have unparsed: "price_ok fs4 p4" if "candidate_price p4 = None"
    using that by (simp add: price_ok_def split: option.splits)
  have "get_filtered_fallback_products keyword filters = Inr (get_fallback_products keyword)"
    if "filter (\<lambda>p. brand_ok filters p \<and> price_ok filters p) (get_fallback_products keyword) = []"
    using that filtered_fallback_refines [of keyword filters]
    by (simp add: filtered_catalog_def Let_def)
  with filtered_fallback_refines [of keyword filters]
       filtered_catalog_nonempty [of keyword filters] under band other unparsed
  show ?thesis by blast
qed

theorem filtered_fallback_never_empty_witness:
  "filter (\<lambda>p. brand_ok [(''brand'', ''Samsung'')] p \<and> price_ok [(''brand'', ''Samsung'')] p)
     (get_fallback_products ''laptop'') = [] \<and>
   get_filtered_fallback_products ''laptop'' [(''brand'', ''Samsung'')]
     = Inr (get_fallback_products ''laptop'') \<and>
   length (get_fallback_products ''laptop'') = 1 \<and>
   map candidate_price (get_fallback_products ''phone'') = [Some 38999, Some 31999] \<and>
   requested_range (''Under '' @ rupee @ ''35,000'') = UnderBound 35000 \<and>
   price_ok [(''price'', ''Under '' @ rupee @ ''35,000'')] (get_fallback_products ''phone'' ! 1) \<and>
   map_sum id (map title)
     (get_filtered_fallback_products ''phone'' [(''price'', ''Under '' @ rupee @ ''35,000'')])
     = Inr [Some ''Realme 11 Pro+ 5G (Oasis Green, 256GB)''] \<and>
   requested_range (rupee @ ''35,000 - '' @ rupee @ ''40,000'') = Band 35000 40000 \<and>
   \<not> price_ok [(''price'', rupee @ ''35,000 - '' @ rupee @ ''40,000'')]
         (get_fallback_products ''phone'' ! 1) \<and>
   map_sum id (map title)
     (get_filtered_fallback_products ''phone''
        [(''price'', rupee @ ''35,000 - '' @ rupee @ ''40,000'')])
     = Inr [Some ''Samsung Galaxy A54 5G (Awesome Blue, 128GB)''] \<and>
   map_sum id (map explanation)
     (get_filtered_fallback_products ''phone'' [(''price'', ''Under '' @ rupee @ ''10,000'')])
     = Inr [None, None] \<and>
   \<not> py_in (''Under '' @ rupee) (''Above '' @ rupee @ ''60,000'') \<and>
   \<not> py_in ''-'' (''Above '' @ rupee @ ''60,000'') \<and>
   price_ok [(''price'', ''Above '' @ rupee @ ''60,000'')] (get_fallback_products ''phone'' ! 0) \<and>
   candidate_price (priced ''on request'') = None \<and>
   price_ok [(''price'', ''Under '' @ rupee @ ''35,000'')] (priced ''on request'') \<and>
   map requested_range (options (get_available_filters ''phone'' ! 1))
     = [UnderBound 10000, Band 10000 20000, Band 20000 40000, Band 40000 60000, NoRange]"
proof -
  let ?under = "[(''price'', ''Under '' @ rupee @ ''35,000'')]"
  let ?band = "[(''price'', rupee @ ''35,000 - '' @ rupee @ ''40,000'')]"
  let ?above = "[(''price'', ''Above '' @ rupee @ ''60,000'')]"
  have none_passes: "filter (\<lambda>p. brand_ok [(''brand'', ''Samsung'')] p
                                 \<and> price_ok [(''brand'', ''Samsung'')] p)
                       (get_fallback_products ''laptop'') = []"
    by code_simp
  have one: "length (get_fallback_products ''laptop'') = 1"
    by code_simp
  have prices: "map candidate_price (get_fallback_products ''phone'') = [Some 38999, Some 31999]"
    by code_simp
  have realme: "candidate_price (get_fallback_products ''phone'' ! 1) = Some 31999"
    by code_simp
  have a1: "map_of ?under ''price'' = Some (''Under '' @ rupee @ ''35,000'')"
    and a2: "map_of ?band ''price'' = Some (rupee @ ''35,000 - '' @ rupee @ ''40,000'')"
    and a3: "map_of ?above ''price'' = Some (''Above '' @ rupee @ ''60,000'')"
    by simp_all
  have r1: "requested_range (''Under '' @ rupee @ ''35,000'') = UnderBound 35000"
    and r2: "requested_range (rupee @ ''35,000 - '' @ rupee @ ''40,000'') = Band 35000 40000"
    by code_simp+
  have n3: "\<not> py_in (''Under '' @ rupee) (''Above '' @ rupee @ ''60,000'')"
           "\<not> py_in ''-'' (''Above '' @ rupee @ ''60,000'')"
    by code_simp+
  have u4: "candidate_price (priced ''on request'') = None"
    by code_simp
  have kept_under: "map_sum id (map title) (get_filtered_fallback_products ''phone'' ?under)
                    = Inr [Some ''Realme 11 Pro+ 5G (Oasis Green, 256GB)'']"
    and kept_band: "map_sum id (map title) (get_filtered_fallback_products ''phone'' ?band)
                    = Inr [Some ''Samsung Galaxy A54 5G (Awesome Blue, 128GB)'']"
    and all_removed: "map_sum id (map explanation)
       (get_filtered_fallback_products ''phone'' [(''price'', ''Under '' @ rupee @ ''10,000'')])
       = Inr [None, None]"
    and ranges: "map requested_range (options (get_available_filters ''phone'' ! 1))
       = [UnderBound 10000, Band 10000 20000, Band 20000 40000, Band 40000 60000, NoRange]"
    by code_simp+
  note inst = filtered_fallback_never_empty
                [of "''laptop''" "[(''brand'', ''Samsung'')]"
                    ?under "''Under '' @ rupee @ ''35,000''" "get_fallback_products ''phone'' ! 1"
                    31999 35000
                    ?band "rupee @ ''35,000 - '' @ rupee @ ''40,000''"
                    "get_fallback_products ''phone'' ! 1" 31999 35000 40000
                    ?above "''Above '' @ rupee @ ''60,000''" "get_fallback_products ''phone'' ! 0"
                    "priced ''on request''" ?under]
  from inst none_passes
  have c0: "get_filtered_fallback_products ''laptop'' [(''brand'', ''Samsung'')]
            = Inr (get_fallback_products ''laptop'')"
    by blast
  from inst a1 realme r1 have c1: "price_ok ?under (get_fallback_products ''phone'' ! 1)"
    by simp
  from inst a2 realme r2 have c2: "\<not> price_ok ?band (get_fallback_products ''phone'' ! 1)"
    by simp
  from inst a3 n3 have c3: "price_ok ?above (get_fallback_products ''phone'' ! 0)"
    by blast
  from inst u4 have c4: "price_ok ?under (priced ''on request'')"
    by blast
  show ?thesis
    by (intro conjI) (fact none_passes one prices r1 r2 n3 u4 kept_under kept_band all_removed
                           ranges c0 c1 c2 c3 c4)+
qed

subsection \<open>Every stored session stays well formed\<close>

lemma new_session_inv: "session_inv new_session"
  by (simp add: session_inv_def new_session_def stages_def)

lemma distinct_filter_params: "distinct (map param (get_available_filters keyword))"
  by (simp add: get_available_filters_def)

lemma store_inv_update: "store_inv us \<Longrightarrow> session_inv s \<Longrightarrow> store_inv (us(session_id \<mapsto> s))"
  by (simp add: store_inv_def)

lemma session_of_inv: "store_inv us \<Longrightarrow> session_inv (session_of us session_id)"
  by (auto simp: store_inv_def session_of_def new_session_inv split: option.splits)

lemma start_inv:
  assumes "session_inv s" and "stage s = ''initial''"
  shows "session_inv (s\<lparr>product_keyword := Some keyword, stage := ''getting_filters'',
                         available_filters := get_available_filters keyword\<rparr>)"
  using assms by (simp add: session_inv_def stages_def distinct_filter_params)

lemma answer_inv:
  assumes inv: "session_inv s"
    and pending: "current_filter_index s < int (length (available_filters s))"
    and current: "py_index (available_filters s) (current_filter_index s) = Inr f"
    and st: "st \<in> stages" "st \<noteq> ''initial''"
  shows "session_inv (s\<lparr>current_filters := AList.update (param f) v (current_filters s),
                         current_filter_index := current_filter_index s + 1,
                         stage := st\<rparr>)"
proof -
  let ?xs = "available_filters s"
  let ?n = "nat (current_filter_index s)"
  from inv have nonneg: "0 \<le> current_filter_index s"
    and keys: "map fst (current_filters s) = map param (take ?n ?xs)"
    and dist: "distinct (map param ?xs)"
    by (simp_all add: session_inv_def)
  from nonneg pending have n: "?n < length ?xs" by linarith
  from current nonneg pending have f: "f = ?xs ! ?n"
    by (simp add: py_index_def)
  have split_xs: "map param ?xs = map param (take ?n ?xs) @ param f # map param (drop (Suc ?n) ?xs)"
    using n f by (metis id_take_nth_drop list.simps(9) map_append)
  with dist have "distinct (map param (take ?n ?xs) @ param f # map param (drop (Suc ?n) ?xs))"
    by simp
  then have fresh: "param f \<notin> set (map fst (current_filters s))"
    unfolding keys by simp
  have "map fst (AList.update (param f) v (current_filters s))
        = map fst (current_filters s) @ [param f]"
    using fresh by (simp add: update_keys)
  also have "\<dots> = map param (take (Suc ?n) ?xs)"
    using n f keys by (simp add: take_Suc_conv_app_nth)
  also have "Suc ?n = nat (current_filter_index s + 1)"
    using nonneg by simp
  finally have keys': "map fst (AList.update (param f) v (current_filters s))
        = map param (take (nat (current_filter_index s + 1)) ?xs)" .
  from nonneg pending dist st keys' show ?thesis
    by (simp add: session_inv_def)
qed

lemma handle_message_inv:
  assumes us: "store_inv us" and s: "session_inv s"
  shows "store_inv (snd (handle_message cfg io msg session_id us s))"
proof -
  have searching: "''searching'' \<in> stages" "''searching'' \<noteq> ''initial''"
    and collecting: "''getting_filters'' \<in> stages" "''getting_filters'' \<noteq> ''initial''"
    by (simp_all add: stages_def)
  show ?thesis
  proof (cases "stage s = ''initial''")
    case True
    show ?thesis
    proof (cases "extract_product_keyword msg")
      case None
      with True us show ?thesis
        by (simp add: handle_message_def)
    next
      case (Some keyword)
      let ?s' = "s\<lparr>product_keyword := Some keyword, stage := ''getting_filters'',
                    available_filters := get_available_filters keyword\<rparr>"
      have "snd (handle_message cfg io msg session_id us s) = us(session_id \<mapsto> ?s')"
        using True Some
        by (simp add: handle_message_def Let_def split: list.splits sum.splits)
      moreover have "store_inv (us(session_id \<mapsto> ?s'))"
        using us start_inv [OF s True] by (rule store_inv_update)
      ultimately show ?thesis by simp
    qed
  next
    case False
    show ?thesis
    proof (cases "stage s = ''getting_filters''
                  \<and> current_filter_index s < int (length (available_filters s))")
      case False
      with \<open>stage s \<noteq> ''initial''\<close> us show ?thesis
        by (auto simp: handle_message_def Let_def simp del: fun_upd_apply)
    next
      case True
      then have st: "stage s = ''getting_filters''"
        and pending: "current_filter_index s < int (length (available_filters s))"
        by simp_all
      show ?thesis
      proof (cases "py_index (available_filters s) (current_filter_index s)")
        case (Inl e)
        with st pending us show ?thesis
          by (simp add: handle_message_def Let_def del: fun_upd_apply)
      next
        case (Inr f)
        have "session_inv (s\<lparr>current_filters := AList.update (param f) (strip msg) (current_filters s),
                               current_filter_index := current_filter_index s + 1\<rparr>)"
          using answer_inv [OF s pending Inr collecting, of "strip msg"] st
          by (cases s) simp
        then have a1: "store_inv (us(session_id \<mapsto>
                         s\<lparr>current_filters := AList.update (param f) (strip msg) (current_filters s),
                            current_filter_index := current_filter_index s + 1\<rparr>))"
          using us by (simp add: store_inv_update del: fun_upd_apply)
        have "session_inv (s\<lparr>current_filters := AList.update (param f) (strip msg) (current_filters s),
                               current_filter_index := current_filter_index s + 1,
                               stage := ''searching''\<rparr>)"
          using answer_inv [OF s pending Inr searching, of "strip msg"] by simp
        then have a2: "store_inv (us(session_id \<mapsto>
                         s\<lparr>current_filters := AList.update (param f) (strip msg) (current_filters s),
                            current_filter_index := current_filter_index s + 1,
                            stage := ''searching''\<rparr>))"
          using us by (simp add: store_inv_update del: fun_upd_apply)
        have a3: "store_inv (us(session_id \<mapsto> new_session))"
          using us new_session_inv by (rule store_inv_update)
        from st pending Inr a1 a2 a3 show ?thesis
          by (simp add: handle_message_def Let_def split: option.splits sum.splits
                   del: fun_upd_apply)
      qed
    qed
  qed
qed

lemma chat_turn_inv:
  assumes "store_inv us"
  shows "store_inv (snd (chat_turn cfg io msg session_id us))"
proof -
  let ?us = "if session_id \<notin> dom us then us(session_id \<mapsto> new_session) else us"
  have us1: "store_inv ?us"
    using assms by (simp add: store_inv_update new_session_inv)
  have "the (?us session_id) = session_of us session_id"
    by (auto simp: session_of_def dom_def)
  then have "session_inv (the (?us session_id))"
    using assms by (simp add: session_of_inv)
  with us1 show ?thesis
    unfolding chat_turn_def Let_def by (rule handle_message_inv)
qed

lemma process_chat_message_inv:
  "store_inv us \<Longrightarrow> store_inv (snd (process_chat_message cfg io msg session_id us))"
  using chat_turn_inv [of us cfg io msg session_id]
  by (auto simp: process_chat_message_def split: prod.splits sum.splits)

lemma run_chat_inv: "store_inv us \<Longrightarrow> store_inv (run_chat cfg us inputs)"
  by (induction inputs arbitrary: us) (auto simp: process_chat_message_inv)

lemma empty_store_inv: "store_inv Map.empty"
  by (simp add: store_inv_def)

text \<open>
  Claim C4. The service starts with no session. After any sequence of messages, with any
  session keys and any answers of the ports, every stored session has as many answered
  filters as its cursor says, and the cursor is between 0 and the length of the filter
  sequence.
\<close>

theorem session_cursor_invariant:
  "run_chat cfg Map.empty inputs session_id = Some s \<longrightarrow>
     int (length (current_filters s)) = current_filter_index s \<and>
     0 \<le> current_filter_index s \<and>
     current_filter_index s \<le> int (length (available_filters s))"
proof
  assume stored: "run_chat cfg Map.empty inputs session_id = Some s"
  have "store_inv (run_chat cfg Map.empty inputs)"
    using empty_store_inv by (rule run_chat_inv)
  with stored have inv: "session_inv s"
    by (simp add: store_inv_def)
  then have bounds: "0 \<le> current_filter_index s"
      "current_filter_index s \<le> int (length (available_filters s))"
    and keys: "map fst (current_filters s)
               = map param (take (nat (current_filter_index s)) (available_filters s))"
    by (simp_all add: session_inv_def)
  have "length (current_filters s) = length (map fst (current_filters s))"
    by simp
  also have "\<dots> = nat (current_filter_index s)"
    unfolding keys using bounds by simp
  finally have "int (length (current_filters s)) = current_filter_index s"
    using bounds by simp
  with bounds show "int (length (current_filters s)) = current_filter_index s \<and>
     0 \<le> current_filter_index s \<and>
     current_filter_index s \<le> int (length (available_filters s))"
    by simp
qed

theorem session_cursor_invariant_witness:
  "run_chat no_keys Map.empty (dialogue dead_ports laptop_answers) ''user_session''
     = Some laptop_session \<and>
   int (length (current_filters laptop_session)) = current_filter_index laptop_session \<and>
   0 \<le> current_filter_index laptop_session \<and>
   current_filter_index laptop_session \<le> int (length (available_filters laptop_session)) \<and>
   current_filter_index laptop_session = 3"
proof -
  have run: "run_chat no_keys Map.empty (dialogue dead_ports laptop_answers) ''user_session''
             = Some laptop_session"
    by code_simp
  have "current_filter_index laptop_session = 3"
    by (simp add: laptop_session_def)
  with session_cursor_invariant
         [of no_keys "dialogue dead_ports laptop_answers" "''user_session''" laptop_session] run
  show ?thesis by blast
qed

subsection \<open>When a search returns no product\<close>

lemma analyze_loop_length:
  "analyze_loop port query i ps = (ok, updated) \<Longrightarrow> length updated = length ps"
  by (induction ps arbitrary: i ok updated) (auto split: prod.splits if_splits)

lemma analyze_length: "length (analyze_products_with_ai cfg io ps query) = length ps"
  by (auto simp: analyze_products_with_ai_def length_fallback_scoring
           split: prod.splits bool.splits dest: analyze_loop_length)

lemma search_pipeline_length: "length (search_pipeline cfg io ps query) = length ps"
  by (simp add: search_pipeline_def length_rank_products analyze_length)

lemma one_shot_nonempty: "sr_products (process_search_query cfg io query) \<noteq> []"
proof -
  have "take 10 (search_pipeline cfg io ps query) \<noteq> []" if "ps \<noteq> []" for ps
    using that search_pipeline_length [of cfg io ps query] by auto
  then show ?thesis
    by (auto simp: process_search_query_def Let_def fallback_catalog_nonempty split: sum.splits)
qed

lemma search_with_filters_nonempty:
  assumes "search_with_filters cfg io keyword filters = Inr results"
    and "serpapi_key cfg = [] \<or> (\<forall>request. serpapi_port io request \<noteq> Serp200 [])"
  shows "results \<noteq> []"
  using assms filtered_catalog_nonempty [of keyword filters]
  by (auto simp: search_with_filters_def filtered_fallback_refines
           split: sum.splits prod.splits serp_outcome.splits if_splits)

lemma filters_nonempty: "get_available_filters keyword \<noteq> []"
  by (simp add: get_available_filters_def)

lemma handle_message_products:
  assumes "handle_message cfg io msg session_id us s = (Inr r, us')"
    and "has_products r"
    and "serpapi_key cfg = [] \<or> (\<forall>request. serpapi_port io request \<noteq> Serp200 [])"
  shows "products r \<noteq> []"
proof (cases "stage s = ''initial''")
  case True
  with assms(1,2) filters_nonempty show ?thesis
    by (auto simp: handle_message_def Let_def filter_response_def plain_response_def
             split: option.splits list.splits)
next
  case False
  with assms(1,2) obtain keyword filters results
    where "search_with_filters cfg io keyword filters = Inr results" "products r = results"
    by (auto simp: handle_message_def Let_def filter_response_def plain_response_def
                   products_response_def
             split: option.splits sum.splits if_splits)
  with assms(3) show ?thesis
    by (simp add: search_with_filters_nonempty)
qed

lemma chat_products_nonempty:
  assumes "has_products (fst (process_chat_message cfg io msg session_id us))"
    and "serpapi_key cfg = [] \<or> (\<forall>request. serpapi_port io request \<noteq> Serp200 [])"
  shows "products (fst (process_chat_message cfg io msg session_id us)) \<noteq> []"
proof (cases "chat_turn cfg io msg session_id us")
  case (Pair outcome us')
  show ?thesis
  proof (cases outcome)
    case (Inl e)
    with Pair assms(1) show ?thesis
      by (simp add: process_chat_message_def plain_response_def)
  next
    case (Inr r)
    with Pair have "fst (process_chat_message cfg io msg session_id us) = r"
      by (simp add: process_chat_message_def)
    moreover have "products r \<noteq> []" if "has_products r"
    proof -
      from Pair Inr obtain us1 s1 where "handle_message cfg io msg session_id us1 s1 = (Inr r, us')"
        by (simp add: chat_turn_def Let_def)
      from this that assms(2) show ?thesis
        by (rule handle_message_products)
    qed
    ultimately show ?thesis using assms(1) by simp
  qed
qed

text \<open>
  Claim C3, as stated, fails: with a search key configured and the port answering a
  filtered search with status 200 and no shopping result, the turn that completes the
  dialogue emits a product response with zero products, although the fallback catalog
  has a laptop.
\<close>

theorem empty_listing_gives_no_products:
  "has_products (fst (process_chat_message serp_key_only empty_search_ports ''8GB'' ''user_session''
       (run_chat serp_key_only Map.empty (dialogue empty_search_ports laptop_answers)))) \<and>
   products (fst (process_chat_message serp_key_only empty_search_ports ''8GB'' ''user_session''
       (run_chat serp_key_only Map.empty (dialogue empty_search_ports laptop_answers)))) = [] \<and>
   length (get_fallback_products ''laptop'') = 1"
  by code_simp

text \<open>
  Claim C3, amended. A one-shot search returns at least one product, the scores its
  scorer gets from the port being numbers (a reply carries a number or no score in this
  model, so that sorting cannot raise). A chat turn that emits products emits at least one
  whenever no search key is configured or the port never answers with status 200 and an
  empty list of results: an empty result of a successful search is emitted as it is.
  After any sequence of messages every stored session is in one of the stages
  \<open>initial\<close>, \<open>getting_filters\<close>, \<open>searching\<close>.
\<close>

theorem results_nonempty_stage_defined:
  "sr_products (process_search_query cfg io query) \<noteq> [] \<and>
   (has_products (fst (process_chat_message cfg io msg session_id us)) \<and>
    (serpapi_key cfg = [] \<or> (\<forall>request. serpapi_port io request \<noteq> Serp200 []))
      \<longrightarrow> products (fst (process_chat_message cfg io msg session_id us)) \<noteq> []) \<and>
   (run_chat cfg Map.empty inputs key = Some s
      \<longrightarrow> stage s \<in> {''initial'', ''getting_filters'', ''searching''})"
proof -
  have "stage s \<in> {''initial'', ''getting_filters'', ''searching''}"
    if "run_chat cfg Map.empty inputs key = Some s"
  proof -
    have "store_inv (run_chat cfg Map.empty inputs)"
      using empty_store_inv by (rule run_chat_inv)
    with that have "session_inv s" by (simp add: store_inv_def)
    then show ?thesis by (simp add: session_inv_def stages_def)
  qed
  with one_shot_nonempty [of cfg io query] chat_products_nonempty [of cfg io msg session_id us]
  show ?thesis by blast
qed

theorem results_nonempty_stage_defined_witness:
  "has_products (fst (process_chat_message no_keys dead_ports ''8GB'' ''user_session''
       (run_chat no_keys Map.empty (dialogue dead_ports laptop_answers)))) \<and>
   serpapi_key no_keys = [] \<and>
   run_chat no_keys Map.empty (dialogue dead_ports laptop_answers) ''user_session''
     = Some laptop_session \<and>
   sr_products (process_search_query no_keys dead_ports ''laptop'') \<noteq> [] \<and>
   products (fst (process_chat_message no_keys dead_ports ''8GB'' ''user_session''
       (run_chat no_keys Map.empty (dialogue dead_ports laptop_answers)))) \<noteq> [] \<and>
   stage laptop_session \<in> {''initial'', ''getting_filters'', ''searching''}"
proof -
  have emits: "has_products (fst (process_chat_message no_keys dead_ports ''8GB'' ''user_session''
       (run_chat no_keys Map.empty (dialogue dead_ports laptop_answers))))"
    by code_simp
  have key: "serpapi_key no_keys = []"
    by (simp add: no_keys_def)
  have run: "run_chat no_keys Map.empty (dialogue dead_ports laptop_answers) ''user_session''
             = Some laptop_session"
    by code_simp
  from results_nonempty_stage_defined
         [of no_keys dead_ports "''laptop''" "''8GB''" "''user_session''"
             "run_chat no_keys Map.empty (dialogue dead_ports laptop_answers)"
             "dialogue dead_ports laptop_answers" "''user_session''" laptop_session]
       emits key run
  show ?thesis by blast
qed

subsection \<open>The end of a filter dialogue\<close>

lemma fallback_catalog_unscored:
  "\<forall>p \<in> set (get_fallback_products query). relevance_score p = None"
  by (simp add: get_fallback_products_def Let_def)

lemma filtered_catalog_unscored:
  "\<forall>p \<in> set (filtered_catalog keyword filters). relevance_score p = None"
  using fallback_catalog_unscored [of keyword]
  by (auto simp: filtered_catalog_def Let_def)

lemma search_with_filters_unscored:
  assumes "search_with_filters cfg io keyword filters = Inr results"
  shows "\<forall>p \<in> set results. relevance_score p = None"
proof -
  from assms have "results = filtered_catalog keyword filters
                   \<or> (\<exists>shopping_results. results = map listing_product shopping_results)"
    by (auto simp: search_with_filters_def filtered_fallback_refines
             split: sum.splits prod.splits serp_outcome.splits if_splits)
  then show ?thesis
    using filtered_catalog_unscored [of keyword filters]
    by (auto simp: listing_product_def)
qed

text \<open>
  Claim C1, as stated, fails: the products emitted by a completed filter dialogue are
  neither scored nor ranked. With no key configured, the dialogue for a laptop ends with
  the one catalog entry that passes the filters, and it carries no relevance score.
\<close>

theorem completed_dialogue_emits_unscored:
  "has_products (fst (process_chat_message no_keys dead_ports ''8GB'' ''user_session''
       (run_chat no_keys Map.empty (dialogue dead_ports laptop_answers)))) \<and>
   map relevance_score
     (products (fst (process_chat_message no_keys dead_ports ''8GB'' ''user_session''
        (run_chat no_keys Map.empty (dialogue dead_ports laptop_answers))))) = [None] \<and>
   map title
     (products (fst (process_chat_message no_keys dead_ports ''8GB'' ''user_session''
        (run_chat no_keys Map.empty (dialogue dead_ports laptop_answers)))))
     = [Some ''HP Pavilion 15 Intel Core i5 12th Gen Laptop'']"
  by code_simp

text \<open>
  Claim C1, amended. When the answer to the last remaining filter arrives, the session
  machine calls the filtered retrieval with the stored keyword and the answered filters,
  the new answer included. When the retrieval returns (it raises nothing), the turn
  emits exactly the candidates the retrieval returned, in its order, with no scoring and
  no ranking: none of the emitted products carries a relevance score. The session is
  then a fresh initial one.
\<close>

theorem last_answer_emits_retrieved_candidates:
  assumes "us session_id = Some s"
    and "stage s = ''getting_filters''"
    and "available_filters s \<noteq> []"
    and "current_filter_index s = int (length (available_filters s)) - 1"
    and "product_keyword s = Some keyword"
    and "search_with_filters cfg io keyword
           (AList.update (param (last (available_filters s))) (strip msg) (current_filters s))
         = Inr results"
  shows "process_chat_message cfg io msg session_id us
         = (products_response (''Here are your filtered results for '' @ keyword @ '':'') results,
            us(session_id \<mapsto> new_session)) \<and>
         products (fst (process_chat_message cfg io msg session_id us)) = results \<and>
         (\<forall>p \<in> set (products (fst (process_chat_message cfg io msg session_id us))).
            relevance_score p = None) \<and>
         snd (process_chat_message cfg io msg session_id us) session_id = Some new_session"
proof -
  let ?xs = "available_filters s"
  from assms(3,4) have idx: "0 \<le> current_filter_index s" "current_filter_index s < int (length ?xs)"
    by (cases ?xs; simp)+
  from assms(3,4) have "nat (current_filter_index s) = length ?xs - 1"
    by (cases ?xs) simp_all
  with assms(3) idx have cur: "py_index ?xs (current_filter_index s) = Inr (last ?xs)"
    by (simp add: py_index_def last_conv_nth)
  have "handle_message cfg io msg session_id us s
        = (Inr (products_response (''Here are your filtered results for '' @ keyword @ '':'')
                  results),
           us(session_id \<mapsto> new_session))"
    using assms(2,4,5,6) idx cur
    by (simp add: handle_message_def Let_def)
  with assms(1) have turn: "process_chat_message cfg io msg session_id us
         = (products_response (''Here are your filtered results for '' @ keyword @ '':'') results,
            us(session_id \<mapsto> new_session))"
    by (simp add: process_chat_message_def chat_turn_def Let_def dom_def)
  have unscored: "\<forall>p \<in> set results. relevance_score p = None"
    using assms(6) by (rule search_with_filters_unscored)
  from turn unscored show ?thesis
    by (simp add: products_response_def)
qed

theorem last_answer_emits_retrieved_candidates_witness:
  "run_chat no_keys Map.empty (dialogue dead_ports laptop_answers) ''user_session''
     = Some laptop_session \<and>
   stage laptop_session = ''getting_filters'' \<and>
   available_filters laptop_session \<noteq> [] \<and>
   current_filter_index laptop_session = int (length (available_filters laptop_session)) - 1 \<and>
   product_keyword laptop_session = Some ''laptop'' \<and>
   search_with_filters no_keys dead_ports ''laptop''
     (AList.update (param (last (available_filters laptop_session))) (strip ''8GB'')
        (current_filters laptop_session))
     = Inr (filtered_catalog ''laptop'' (current_filters laptop_session @ [(''ram'', ''8GB'')])) \<and>
   process_chat_message no_keys dead_ports ''8GB'' ''user_session''
       (run_chat no_keys Map.empty (dialogue dead_ports laptop_answers))
     = (products_response ''Here are your filtered results for laptop:''
          (filtered_catalog ''laptop'' (current_filters laptop_session @ [(''ram'', ''8GB'')])),
        (run_chat no_keys Map.empty (dialogue dead_ports laptop_answers))
          (''user_session'' \<mapsto> new_session)) \<and>
   map relevance_score
     (products (fst (process_chat_message no_keys dead_ports ''8GB'' ''user_session''
        (run_chat no_keys Map.empty (dialogue dead_ports laptop_answers))))) = [None] \<and>
   snd (process_chat_message no_keys dead_ports ''8GB'' ''user_session''
          (run_chat no_keys Map.empty (dialogue dead_ports laptop_answers))) ''user_session''
     = Some new_session"
proof -
  have run: "run_chat no_keys Map.empty (dialogue dead_ports laptop_answers) ''user_session''
             = Some laptop_session"
    by code_simp
  have st: "stage laptop_session = ''getting_filters''"
    and kw: "product_keyword laptop_session = Some ''laptop''"
    by (simp_all add: laptop_session_def)
  have xs: "available_filters laptop_session \<noteq> []"
    by (simp add: laptop_session_def filters_nonempty)
  have idx: "current_filter_index laptop_session
             = int (length (available_filters laptop_session)) - 1"
    by code_simp
  have "search_with_filters no_keys dead_ports ''laptop''
      (AList.update (param (last (available_filters laptop_session))) (strip ''8GB'')
         (current_filters laptop_session))
      = get_filtered_fallback_products ''laptop''
          (current_filters laptop_session @ [(''ram'', ''8GB'')])"
    by code_simp
  then have found: "search_with_filters no_keys dead_ports ''laptop''
      (AList.update (param (last (available_filters laptop_session))) (strip ''8GB'')
         (current_filters laptop_session))
      = Inr (filtered_catalog ''laptop''
               (current_filters laptop_session @ [(''ram'', ''8GB'')]))"
    by (simp add: filtered_fallback_refines)
  have one: "map relevance_score
     (products (fst (process_chat_message no_keys dead_ports ''8GB'' ''user_session''
        (run_chat no_keys Map.empty (dialogue dead_ports laptop_answers))))) = [None]"
    by code_simp
  note inst = last_answer_emits_retrieved_candidates
         [where us = "run_chat no_keys Map.empty (dialogue dead_ports laptop_answers)"
            and session_id = "''user_session''", OF run st xs idx kw found]
  from inst have turn: "process_chat_message no_keys dead_ports ''8GB'' ''user_session''
       (run_chat no_keys Map.empty (dialogue dead_ports laptop_answers))
     = (products_response ''Here are your filtered results for laptop:''
          (filtered_catalog ''laptop'' (current_filters laptop_session @ [(''ram'', ''8GB'')])),
        (run_chat no_keys Map.empty (dialogue dead_ports laptop_answers))
          (''user_session'' \<mapsto> new_session))"
    by simp
  from inst have reset: "snd (process_chat_message no_keys dead_ports ''8GB'' ''user_session''
          (run_chat no_keys Map.empty (dialogue dead_ports laptop_answers))) ''user_session''
     = Some new_session"
    by blast
  show ?thesis
    by (intro conjI) (fact run st xs idx kw found turn one reset)+
qed

subsection \<open>An exception during a turn\<close>

text \<open>
  Claim C2 describes what the handler of a chat turn should do; the code does not do it.
  The handler returns the start-over reply and leaves \<open>user_sessions\<close> alone. When
  the price is answered with \<open>Under 10000\<close>, the query building of the filtered search
  raises after the last answer, the reply says "Let's start fresh", and the session keeps
  its stage \<open>searching\<close>, its keyword, its four answers and its cursor. Later messages
  in that session only get a canned reply: a new request for a laptop is not recognised.
\<close>

theorem error_leaves_session_searching:
  "fst (process_chat_message no_keys dead_ports ''8GB'' ''user_session''
          (run_chat no_keys Map.empty (dialogue dead_ports phone_answers)))
     = plain_response start_over_text \<and>
   snd (process_chat_message no_keys dead_ports ''8GB'' ''user_session''
          (run_chat no_keys Map.empty (dialogue dead_ports phone_answers))) ''user_session''
     = Some phone_session_after_error \<and>
   phone_session_after_error \<noteq> new_session \<and>
   fst (process_chat_message no_keys dead_ports ''I need a laptop'' ''user_session''
          (run_chat no_keys Map.empty (dialogue dead_ports (phone_answers @ [''8GB'']))))
     = plain_response default_reply"
  by code_simp

subsection \<open>Messages without a keyword\<close>

lemma canned_reply_cases:
  "generate_conversational_response msg \<in> {greeting_reply, thanks_reply, help_reply, default_reply}"
  by (simp add: generate_conversational_response_def Let_def)

lemma canned_reply_selection:
  "generate_conversational_response m =
     (if \<exists>w \<in> set [''hello'', ''hi'', ''hey'', ''good morning'', ''good afternoon'',
                      ''good evening'']. py_in w (lower m) then greeting_reply
      else if \<exists>w \<in> set [''thank you'', ''thanks'', ''appreciate'']. py_in w (lower m)
        then thanks_reply
      else if \<exists>w \<in> set [''help'', ''how'', ''what can you do'']. py_in w (lower m)
        then help_reply
      else default_reply)"
  by (simp add: generate_conversational_response_def any_in_def Let_def)

lemma canned_replies_distinct:
  "distinct [greeting_reply, thanks_reply, help_reply, default_reply]"
  by (simp add: greeting_reply_def thanks_reply_def help_reply_def default_reply_def)

lemma prompts_not_canned:
  "''Great! I found filters for '' @ x \<notin> {greeting_reply, thanks_reply, help_reply, default_reply}"
  "''**'' @ x \<notin> {greeting_reply, thanks_reply, help_reply, default_reply}"
  "''Here are your filtered results for '' @ x
     \<notin> {greeting_reply, thanks_reply, help_reply, default_reply}"
  "clarify_text \<notin> {greeting_reply, thanks_reply, help_reply, default_reply}"
  "start_over_text \<notin> {greeting_reply, thanks_reply, help_reply, default_reply}"
  by (simp_all add: greeting_reply_def thanks_reply_def help_reply_def default_reply_def
                    clarify_text_def start_over_text_def apos_def)

lemma busy_session_not_canned:
  assumes state: "stage s = ''initial''
           \<or> (stage s = ''getting_filters''
               \<and> current_filter_index s < int (length (available_filters s)))"
    and turn: "handle_message cfg io msg session_id us s = (outcome, us1)"
  shows "message (case outcome of Inl e \<Rightarrow> plain_response start_over_text | Inr r \<Rightarrow> r)
         \<notin> {greeting_reply, thanks_reply, help_reply, default_reply}"
proof -
  have clarified: "message (plain_response clarify_text)
                   \<notin> {greeting_reply, thanks_reply, help_reply, default_reply}"
    and failed: "message (plain_response start_over_text)
                 \<notin> {greeting_reply, thanks_reply, help_reply, default_reply}"
    unfolding plain_response_def by (simp_all only: response.simps prompts_not_canned simp_thms)
  have started: "message (filter_response (''Great! I found filters for '' @ x) f)
                 \<notin> {greeting_reply, thanks_reply, help_reply, default_reply}" for x f
    unfolding filter_response_def
    by (simp only: response.simps append_assoc prompts_not_canned simp_thms)
  have prompted: "message (filter_response [] f)
                  \<notin> {greeting_reply, thanks_reply, help_reply, default_reply}" for f
    unfolding filter_response_def options_prompt_def
    by (simp only: response.simps append_Nil append_assoc prompts_not_canned simp_thms)
  have found: "message (products_response (''Here are your filtered results for '' @ x) rs)
               \<notin> {greeting_reply, thanks_reply, help_reply, default_reply}" for x rs
    unfolding products_response_def
    by (simp only: response.simps prompts_not_canned simp_thms)
  have shape:
    "(\<exists>e. outcome = Inl e)
     \<or> outcome = Inr (plain_response clarify_text)
     \<or> (\<exists>x f. outcome = Inr (filter_response (''Great! I found filters for '' @ x) f))
     \<or> (\<exists>f. outcome = Inr (filter_response [] f))
     \<or> (\<exists>x rs. outcome
            = Inr (products_response (''Here are your filtered results for '' @ x) rs))"
  proof (cases "stage s = ''initial''")
    case True
    show ?thesis
    proof (cases "extract_product_keyword msg")
      case None
      with True turn have "outcome = Inr (plain_response clarify_text)"
        by (simp add: handle_message_def)
      then show ?thesis by blast
    next
      case (Some keyword)
      obtain f fs where "get_available_filters keyword = f # fs"
        using filters_nonempty [of keyword] by (cases "get_available_filters keyword") auto
      with True Some turn
      have "outcome = Inr (filter_response
              (''Great! I found filters for ''
               @ (keyword @ ''. Let'' @ apos @ ''s refine your search step by step.''
                  @ newline @ newline)) f)"
        by (simp add: handle_message_def Let_def)
      then show ?thesis by blast
    qed
  next
    case False
    with state have "stage s = ''getting_filters''"
      and "current_filter_index s < int (length (available_filters s))"
      by simp_all
    with False turn have
      "(\<exists>e. outcome = Inl e) \<or> (\<exists>f. outcome = Inr (filter_response [] f))
       \<or> (\<exists>x rs. outcome
              = Inr (products_response (''Here are your filtered results for '' @ x) rs))"
      by (auto simp: handle_message_def Let_def split: sum.splits option.splits if_splits)
    then show ?thesis by blast
  qed
  then consider (raised) e where "outcome = Inl e"
    | (clarify) "outcome = Inr (plain_response clarify_text)"
    | (first_prompt) x f
        where "outcome = Inr (filter_response (''Great! I found filters for '' @ x) f)"
    | (next_prompt) f where "outcome = Inr (filter_response [] f)"
    | (results) x rs
        where "outcome = Inr (products_response (''Here are your filtered results for '' @ x) rs)"
    by blast
  then show ?thesis
  proof cases
    case raised
    show ?thesis unfolding raised sum.case by (rule failed)
  next
    case clarify
    show ?thesis unfolding clarify sum.case by (rule clarified)
  next
    case first_prompt
    show ?thesis unfolding first_prompt sum.case by (rule started)
  next
    case next_prompt
    show ?thesis unfolding next_prompt sum.case by (rule prompted)
  next
    case results
    show ?thesis unfolding results sum.case by (rule found)
  qed
qed

text \<open>
  Claim C9, as stated, fails: a greeting that reaches a new session is answered with the
  fixed clarifying prompt, which is none of the four canned replies, and the session
  store gets a session for the key.
\<close>

theorem greeting_gets_clarifying_prompt:
  "extract_product_keyword ''hello'' = None \<and>
   message (fst (process_chat_message no_keys dead_ports ''hello'' ''user_session'' Map.empty))
     = clarify_text \<and>
   clarify_text \<notin> {greeting_reply, thanks_reply, help_reply, default_reply} \<and>
   snd (process_chat_message no_keys dead_ports ''hello'' ''user_session'' Map.empty)
       ''user_session'' = Some new_session"
  by code_simp

text \<open>
  Claim C9, amended. A message without a keyword of the vocabulary that reaches a session
  in the initial stage is answered with the fixed clarifying prompt; the session is left
  as it is, and a new key gets a fresh initial session. A session in the initial stage,
  and a session that collects filters and has a filter pending, never answer with a
  canned reply, whatever the message. A session that is in neither state, as one left in
  the stage \<open>searching\<close> is, always answers with the canned reply and changes no
  session. The canned reply is chosen by substring tests on the lowered message, in this
  order: the greeting if the message contains a greeting word, else the thanks if it
  contains a word of thanks, else the help if it contains a help word, else the default;
  the four replies are different texts.
\<close>

theorem replies_without_keyword:
  "(stage (session_of us session_id) = ''initial'' \<and> extract_product_keyword msg = None
      \<longrightarrow> process_chat_message cfg io msg session_id us
            = (plain_response clarify_text, us(session_id \<mapsto> session_of us session_id))) \<and>
   (stage (session_of us2 key2) = ''initial''
    \<or> (stage (session_of us2 key2) = ''getting_filters''
        \<and> current_filter_index (session_of us2 key2)
            < int (length (available_filters (session_of us2 key2))))
      \<longrightarrow> message (fst (process_chat_message cfg io msg2 key2 us2))
            \<notin> {greeting_reply, thanks_reply, help_reply, default_reply}) \<and>
   (us' key = Some s \<and> stage s \<noteq> ''initial'' \<and>
    (stage s = ''getting_filters''
       \<longrightarrow> \<not> current_filter_index s < int (length (available_filters s)))
      \<longrightarrow> process_chat_message cfg io msg' key us'
            = (plain_response (generate_conversational_response msg'), us')) \<and>
   generate_conversational_response msg'
     = (if \<exists>w \<in> set [''hello'', ''hi'', ''hey'', ''good morning'', ''good afternoon'',
                        ''good evening'']. py_in w (lower msg') then greeting_reply
        else if \<exists>w \<in> set [''thank you'', ''thanks'', ''appreciate'']. py_in w (lower msg')
          then thanks_reply
        else if \<exists>w \<in> set [''help'', ''how'', ''what can you do'']. py_in w (lower msg')
          then help_reply
        else default_reply) \<and>
   distinct [greeting_reply, thanks_reply, help_reply, default_reply]"
proof -
  have first: "process_chat_message cfg io msg session_id us
            = (plain_response clarify_text, us(session_id \<mapsto> session_of us session_id))"
    if "stage (session_of us session_id) = ''initial''" "extract_product_keyword msg = None"
    using that
    by (auto simp: process_chat_message_def chat_turn_def handle_message_def session_of_def
                   Let_def dom_def fun_upd_idem
             split: option.splits)
  have busy: "message (fst (process_chat_message cfg io msg2 key2 us2))
              \<notin> {greeting_reply, thanks_reply, help_reply, default_reply}"
    if state: "stage (session_of us2 key2) = ''initial''
          \<or> (stage (session_of us2 key2) = ''getting_filters''
              \<and> current_filter_index (session_of us2 key2)
                  < int (length (available_filters (session_of us2 key2))))"
  proof -
    let ?us = "if key2 \<notin> dom us2 then us2(key2 \<mapsto> new_session) else us2"
    have s: "the (?us key2) = session_of us2 key2"
      by (auto simp: session_of_def dom_def)
    obtain outcome us1
      where turn: "handle_message cfg io msg2 key2 ?us (session_of us2 key2) = (outcome, us1)"
      by (cases "handle_message cfg io msg2 key2 ?us (session_of us2 key2)") blast
    then have "fst (process_chat_message cfg io msg2 key2 us2)
               = (case outcome of Inl e \<Rightarrow> plain_response start_over_text | Inr r \<Rightarrow> r)"
      unfolding process_chat_message_def chat_turn_def Let_def s
      by (simp split: sum.splits)
    with busy_session_not_canned [OF state turn] show ?thesis
      by simp
  qed
  have second: "process_chat_message cfg io msg' key us'
            = (plain_response (generate_conversational_response msg'), us')"
    if "us' key = Some s" "stage s \<noteq> ''initial''"
       "stage s = ''getting_filters''
          \<longrightarrow> \<not> current_filter_index s < int (length (available_filters s))"
    using that
    by (auto simp: process_chat_message_def chat_turn_def handle_message_def Let_def dom_def)
  from first have c1:
    "stage (session_of us session_id) = ''initial'' \<and> extract_product_keyword msg = None
      \<longrightarrow> process_chat_message cfg io msg session_id us
            = (plain_response clarify_text, us(session_id \<mapsto> session_of us session_id))"
    by blast
  from busy have c2:
    "stage (session_of us2 key2) = ''initial''
     \<or> (stage (session_of us2 key2) = ''getting_filters''
         \<and> current_filter_index (session_of us2 key2)
             < int (length (available_filters (session_of us2 key2))))
      \<longrightarrow> message (fst (process_chat_message cfg io msg2 key2 us2))
            \<notin> {greeting_reply, thanks_reply, help_reply, default_reply}"
    by blast
  from second have c3:
    "us' key = Some s \<and> stage s \<noteq> ''initial'' \<and>
     (stage s = ''getting_filters''
        \<longrightarrow> \<not> current_filter_index s < int (length (available_filters s)))
      \<longrightarrow> process_chat_message cfg io msg' key us'
            = (plain_response (generate_conversational_response msg'), us')"
    by blast
  show ?thesis
    by (intro conjI)
       (fact c1 c2 c3 canned_reply_selection [of msg'] canned_replies_distinct)+
qed

theorem replies_without_keyword_witness:
  "stage (session_of Map.empty ''user_session'') = ''initial'' \<and>
   extract_product_keyword ''hello'' = None \<and>
   run_chat no_keys Map.empty (dialogue dead_ports (phone_answers @ [''8GB''])) ''user_session''
     = Some phone_session_after_error \<and>
   stage phone_session_after_error \<noteq> ''initial'' \<and>
   stage phone_session_after_error \<noteq> ''getting_filters'' \<and>
   process_chat_message no_keys dead_ports ''hello'' ''user_session'' Map.empty
     = (plain_response clarify_text, [''user_session'' \<mapsto> new_session]) \<and>
   message (fst (process_chat_message no_keys dead_ports ''hello'' ''user_session'' Map.empty))
     \<notin> {greeting_reply, thanks_reply, help_reply, default_reply} \<and>
   filter_name (fst (process_chat_message no_keys dead_ports ''hello'' ''user_session''
                       (run_chat no_keys Map.empty (dialogue dead_ports [''I need a laptop'']))))
     = Some ''Price Range'' \<and>
   process_chat_message no_keys dead_ports ''hello'' ''user_session''
       (run_chat no_keys Map.empty (dialogue dead_ports (phone_answers @ [''8GB''])))
     = (plain_response greeting_reply,
        run_chat no_keys Map.empty (dialogue dead_ports (phone_answers @ [''8GB'']))) \<and>
   generate_conversational_response ''hello'' = greeting_reply \<and>
   generate_conversational_response ''thanks a lot'' = thanks_reply \<and>
   generate_conversational_response ''what can you do'' = help_reply \<and>
   generate_conversational_response ''ok'' = default_reply \<and>
   distinct [greeting_reply, thanks_reply, help_reply, default_reply]"
proof -
  have fresh: "stage (session_of Map.empty ''user_session'') = ''initial''"
    by (simp add: session_of_def new_session_def)
  have none: "extract_product_keyword ''hello'' = None"
    by code_simp
  have run: "run_chat no_keys Map.empty (dialogue dead_ports (phone_answers @ [''8GB'']))
               ''user_session'' = Some phone_session_after_error"
    by code_simp
  have st: "stage phone_session_after_error \<noteq> ''initial''"
    and st': "stage phone_session_after_error \<noteq> ''getting_filters''"
    by (simp_all add: phone_session_after_error_def)
  have hello: "generate_conversational_response ''hello'' = greeting_reply"
    and thanking: "generate_conversational_response ''thanks a lot'' = thanks_reply"
    and helping: "generate_conversational_response ''what can you do'' = help_reply"
    and other: "generate_conversational_response ''ok'' = default_reply"
    and pending: "filter_name (fst (process_chat_message no_keys dead_ports ''hello''
                       ''user_session''
                       (run_chat no_keys Map.empty (dialogue dead_ports [''I need a laptop'']))))
                  = Some ''Price Range''"
    by code_simp+
  note inst = replies_without_keyword
         [of Map.empty "''user_session''" "''hello''" no_keys dead_ports
             Map.empty "''user_session''" "''hello''"
             "run_chat no_keys Map.empty (dialogue dead_ports (phone_answers @ [''8GB'']))"
             "''user_session''" phone_session_after_error "''hello''"]
  from inst fresh none
  have clarify: "process_chat_message no_keys dead_ports ''hello'' ''user_session'' Map.empty
     = (plain_response clarify_text, [''user_session'' \<mapsto> new_session])"
    by (simp add: session_of_def)
  from inst fresh
  have busy: "message (fst (process_chat_message no_keys dead_ports ''hello'' ''user_session''
                              Map.empty))
              \<notin> {greeting_reply, thanks_reply, help_reply, default_reply}"
    by blast
  from inst run st st' hello
  have canned: "process_chat_message no_keys dead_ports ''hello'' ''user_session''
       (run_chat no_keys Map.empty (dialogue dead_ports (phone_answers @ [''8GB''])))
     = (plain_response greeting_reply,
        run_chat no_keys Map.empty (dialogue dead_ports (phone_answers @ [''8GB''])))"
    by simp
  from inst have different: "distinct [greeting_reply, thanks_reply, help_reply, default_reply]"
    by blast
  show ?thesis
    by (intro conjI)
       (fact fresh none run st st' clarify busy pending canned hello thanking helping other
             different)+
qed

end
